theory Spec2Isabelle
  imports Main
begin

section \<open>Python values, exceptions and the environment\<close>

text \<open>
  The almanac records are what \<^verbatim>\<open>response.json()\<close> and \<^verbatim>\<open>json.loads\<close> return:
  Python values built from \<^verbatim>\<open>None\<close>, booleans, integers, strings, lists and dicts.
  A dict is an association list in insertion order (its keys are distinct).
  Numbers are integers: the envelope's \<^verbatim>\<open>code\<close> field is an integer.
\<close>

datatype json =
    JNull
  | JBool bool
  | JInt int
  | JStr string
  | JArr "json list"
  | JObj "(string \<times> json) list"

text \<open>Python truthiness, as tested by \<^verbatim>\<open>if day_info and hour_info\<close> and \<^verbatim>\<open>if not day_info\<close>.\<close>

fun truthy :: "json \<Rightarrow> bool" where
  "truthy JNull = False"
| "truthy (JBool b) = b"
| "truthy (JInt n) = (n \<noteq> 0)"
| "truthy (JStr s) = (s \<noteq> [])"
| "truthy (JArr xs) = (xs \<noteq> [])"
| "truthy (JObj kvs) = (kvs \<noteq> [])"

datatype dimension = Day | Hour

text \<open>
  Every exception of the source is a plain \<^verbatim>\<open>Exception(message)\<close>. The message is kept
  structured: \<open>Raised\<close> is an exception of a library (requests, sqlite3, json, or an
  \<^verbatim>\<open>AttributeError\<close> of the interpreter); \<open>ApiAddressFailed\<close> and \<open>CalendarFailed\<close> are the
  exceptions raised on a rejected envelope, with the envelope in the message; \<open>Wrapped\<close> is
  \<^verbatim>\<open>Exception(f"<prefix>: {str(e)}")\<close>, one prefix for each \<^verbatim>\<open>except\<close> clause that re-raises:
  \<open>OptimalIp\<close> in \<^verbatim>\<open>get_optimal_api_ip\<close>, \<open>Fetch Day\<close> in \<^verbatim>\<open>CalendarAPI.get_day_calendar\<close>,
  \<open>Fetch Hour\<close> in \<^verbatim>\<open>CalendarAPI.get_hour_calendar\<close>, \<open>GetData\<close> in \<^verbatim>\<open>get_calander_info\<close>.
\<close>

datatype stage = OptimalIp | Fetch dimension | GetData

datatype exc =
    Raised string
  | ApiAddressFailed json
  | CalendarFailed dimension json
  | Wrapped stage exc

text \<open>
  A call of \<^verbatim>\<open>requests.get\<close>: the method that issued it, its URL and its query parameters.
\<close>

datatype endpoint = Discovery | Calendar dimension

record request =
  endpoint :: endpoint
  url :: "string option"
  params :: "(string \<times> json) list"

text \<open>The calls of the store's four public methods, with their arguments.\<close>

datatype db_call =
    GetDay string
  | GetHour string
  | SaveDay string json
  | SaveHour string json

text \<open>
  What the code cannot decide is an input of the model. \<open>respond n rq\<close> is the outcome of
  the \<open>n\<close>-th call of \<^verbatim>\<open>requests.get\<close> (counted from 0) followed by
  \<^verbatim>\<open>raise_for_status()\<close> and \<^verbatim>\<open>json()\<close>: the exception one of them raises, or the parsed body.
  \<open>db_fault n\<close> is the exception, if any, that sqlite3 raises somewhere inside the
  transaction of the \<open>n\<close>-th store call, and \<open>now_at n\<close> is what \<^verbatim>\<open>get_local_timestamp()\<close>
  returns during that call. \<open>init_fault\<close> is the exception, if any, raised while the store
  singleton is constructed. \<open>dumps\<close>, \<open>dumps_indent\<close> and \<open>loads\<close> are
  \<^verbatim>\<open>json.dumps(_, ensure_ascii=False)\<close>, \<^verbatim>\<open>json.dumps(_, ensure_ascii=False, indent=2)\<close> and
  \<^verbatim>\<open>json.loads\<close>; the three \<open>getenv\<close> fields are the environment variables read by
  \<^verbatim>\<open>CalendarAPI.__init__\<close>.
\<close>

record env =
  respond :: "nat \<Rightarrow> request \<Rightarrow> exc + json"
  db_fault :: "nat \<Rightarrow> exc option"
  now_at :: "nat \<Rightarrow> string"
  init_fault :: "exc option"
  dumps :: "json \<Rightarrow> string"
  dumps_indent :: "json \<Rightarrow> string"
  loads :: "string \<Rightarrow> exc + json"
  getenv_CALENDAR_BASE_URL :: "string option"
  getenv_CALENDAR_API_ID :: string
  getenv_CALENDAR_API_KEY :: string

section \<open>The store (pkg/sqlite/sqlite.py)\<close>

text \<open>
  A row of \<^verbatim>\<open>day_calendar\<close> or \<^verbatim>\<open>hour_calendar\<close>. The \<^verbatim>\<open>date\<close> column is unique and not
  null, so a table is a partial map from the date to the rest of the row; \<^verbatim>\<open>data\<close> may be
  NULL. The surrogate \<^verbatim>\<open>id\<close> column is never read or written by the code and is left out.
\<close>

record row =
  data :: "string option"
  create_time :: string
  update_time :: string

type_synonym table = "string \<rightharpoonup> row"

text \<open>
  The state: the two tables, whether the module-level singleton \<^verbatim>\<open>_db_instance\<close> exists,
  and the traces of the store calls and of the HTTP calls made so far (oldest first).
\<close>

record world =
  day_calendar :: table
  hour_calendar :: table
  db_instance :: bool
  db_calls :: "db_call list"
  http_calls :: "request list"

text \<open>
  The body of the \<^verbatim>\<open>with self.get_connection()\<close> block of the two getters: the SELECT,
  then \<^verbatim>\<open>json.loads(data_str) if data_str else None\<close>. An exception of sqlite3 anywhere in
  the transaction, or of \<^verbatim>\<open>json.loads\<close>, leaves the block.
\<close>

definition select_data :: "env \<Rightarrow> nat \<Rightarrow> table \<Rightarrow> string \<Rightarrow> exc + json" where
  "select_data e n tbl date =
     (case db_fault e n of
        Some x \<Rightarrow> Inl x
      | None \<Rightarrow>
          (case tbl date of
             None \<Rightarrow> Inr JNull
           | Some r \<Rightarrow>
               (case data r of
                  None \<Rightarrow> Inr JNull
                | Some data_str \<Rightarrow> if data_str = [] then Inr JNull else loads e data_str)))"

text \<open>The \<^verbatim>\<open>try ... except Exception: log; return None\<close> around that block.\<close>

definition SQLiteDB_get_day_calendar :: "env \<Rightarrow> string \<Rightarrow> world \<Rightarrow> json \<times> world" where
  "SQLiteDB_get_day_calendar e date w =
     (let w' = w\<lparr>db_calls := db_calls w @ [GetDay date]\<rparr> in
      case select_data e (length (db_calls w)) (day_calendar w) date of
        Inl x \<Rightarrow> (JNull, w')
      | Inr v \<Rightarrow> (v, w'))"

definition SQLiteDB_get_hour_calendar :: "env \<Rightarrow> string \<Rightarrow> world \<Rightarrow> json \<times> world" where
  "SQLiteDB_get_hour_calendar e date w =
     (let w' = w\<lparr>db_calls := db_calls w @ [GetHour date]\<rparr> in
      case select_data e (length (db_calls w)) (hour_calendar w) date of
        Inl x \<Rightarrow> (JNull, w')
      | Inr v \<Rightarrow> (v, w'))"

text \<open>
  The body of the \<^verbatim>\<open>with\<close> block of the two savers:
  \<^verbatim>\<open>INSERT ... VALUES (date, data_str, current_time, current_time)
  ON CONFLICT(date) DO UPDATE SET data = excluded.data, update_time = excluded.update_time\<close>.
  The transaction commits as a whole or, on an exception, is rolled back as a whole.
\<close>

definition upsert :: "env \<Rightarrow> nat \<Rightarrow> table \<Rightarrow> string \<Rightarrow> json \<Rightarrow> exc + table" where
  "upsert e n tbl date payload =
     (case db_fault e n of
        Some x \<Rightarrow> Inl x
      | None \<Rightarrow>
          (let data_str = dumps e payload;
               current_time = now_at e n
           in Inr (tbl(date \<mapsto>
                (case tbl date of
                   None \<Rightarrow> \<lparr>data = Some data_str, create_time = current_time,
                             update_time = current_time\<rparr>
                 | Some r \<Rightarrow> r\<lparr>data := Some data_str, update_time := current_time\<rparr>)))))"

text \<open>The \<^verbatim>\<open>try ... return True ... except Exception: log; return False\<close> around it.\<close>

definition SQLiteDB_save_day_calendar ::
    "env \<Rightarrow> string \<Rightarrow> json \<Rightarrow> world \<Rightarrow> bool \<times> world" where
  "SQLiteDB_save_day_calendar e date payload w =
     (let w' = w\<lparr>db_calls := db_calls w @ [SaveDay date payload]\<rparr> in
      case upsert e (length (db_calls w)) (day_calendar w) date payload of
        Inl x \<Rightarrow> (False, w')
      | Inr tbl \<Rightarrow> (True, w'\<lparr>day_calendar := tbl\<rparr>))"

definition SQLiteDB_save_hour_calendar ::
    "env \<Rightarrow> string \<Rightarrow> json \<Rightarrow> world \<Rightarrow> bool \<times> world" where
  "SQLiteDB_save_hour_calendar e date payload w =
     (let w' = w\<lparr>db_calls := db_calls w @ [SaveHour date payload]\<rparr> in
      case upsert e (length (db_calls w)) (hour_calendar w) date payload of
        Inl x \<Rightarrow> (False, w')
      | Inr tbl \<Rightarrow> (True, w'\<lparr>hour_calendar := tbl\<rparr>))"

text \<open>
  \<^verbatim>\<open>get_db()\<close>: the singleton is built on first use; \<^verbatim>\<open>SQLiteDB.__init__\<close> re-raises what
  goes wrong while it connects and creates the two tables.
\<close>

definition get_db :: "env \<Rightarrow> world \<Rightarrow> (exc + unit) \<times> world" where
  "get_db e w =
     (if db_instance w then (Inr (), w)
      else (case init_fault e of
              Some x \<Rightarrow> (Inl x, w)
            | None \<Rightarrow> (Inr (), w\<lparr>db_instance := True\<rparr>)))"

section \<open>The client (pkg/calender/calendar_api.py)\<close>

text \<open>
  \<^verbatim>\<open>str.replace(old, new)\<close> for a non-empty \<open>old\<close> (the source passes \<^verbatim>\<open>"http://"\<close> and
  \<^verbatim>\<open>"https://"\<close>): every non-overlapping occurrence, left to right. \<^verbatim>\<open>str.rstrip(chars)\<close>
  drops the longest suffix made of the given characters.
\<close>

fun replace :: "string \<Rightarrow> string \<Rightarrow> string \<Rightarrow> string" where
  "replace old new [] = []"
| "replace old new (c # cs) =
     (if old \<noteq> [] \<and> take (length old) (c # cs) = old
      then new @ replace old new (drop (length old) (c # cs))
      else c # replace old new cs)"

definition rstrip :: "string \<Rightarrow> string \<Rightarrow> string" where
  "rstrip chars s = rev (dropWhile (\<lambda>c. c \<in> set chars) (rev s))"

text \<open>\<^verbatim>\<open>data.get(k)\<close>: only a dict has the method; a missing key gives \<^verbatim>\<open>None\<close>.\<close>

definition dict_get :: "json \<Rightarrow> string \<Rightarrow> exc + json" where
  "dict_get d k =
     (case d of
        JObj kvs \<Rightarrow> Inr (case map_of kvs k of None \<Rightarrow> JNull | Some v \<Rightarrow> v)
      | _ \<Rightarrow> Inl (Raised ''AttributeError''))"

record CalendarAPI =
  api_base_url :: "string option"
  current_ip :: "string option"
  id' :: string
  key :: string

text \<open>\<^verbatim>\<open>CalendarAPI()\<close>: the constructor reads the environment; no address is known yet.\<close>

definition CalendarAPI_init :: "env \<Rightarrow> CalendarAPI" where
  "CalendarAPI_init e =
     \<lparr>api_base_url = getenv_CALENDAR_BASE_URL e, current_ip = None,
      id' = getenv_CALENDAR_API_ID e, key = getenv_CALENDAR_API_KEY e\<rparr>"

text \<open>
  \<^verbatim>\<open>requests.get(...)\<close>, \<^verbatim>\<open>raise_for_status()\<close> and \<^verbatim>\<open>json()\<close>: the call is appended to the
  trace, and the environment decides its outcome.
\<close>

definition http_get :: "env \<Rightarrow> request \<Rightarrow> world \<Rightarrow> (exc + json) \<times> world" where
  "http_get e rq w = (respond e (length (http_calls w)) rq, w\<lparr>http_calls := http_calls w @ [rq]\<rparr>)"

definition discovery_request :: "CalendarAPI \<Rightarrow> request" where
  "discovery_request api = \<lparr>endpoint = Discovery, url = api_base_url api, params = []\<rparr>"

text \<open>
  The part of \<^verbatim>\<open>get_optimal_api_ip\<close> after the response is parsed, inside its \<^verbatim>\<open>try\<close>:
  the envelope test, then the address taken from the \<^verbatim>\<open>api\<close> field
  (\<^verbatim>\<open>str.replace\<close> on a value that is not a string raises).
\<close>

definition extract_ip :: "json \<Rightarrow> exc + string" where
  "extract_ip d =
     (case dict_get d ''code'' of
        Inl x \<Rightarrow> Inl x
      | Inr c \<Rightarrow>
          (case d of
             JObj kvs \<Rightarrow>
               (if c = JInt 200 \<and> ''api'' \<in> fst ` set kvs then
                  (case map_of kvs ''api'' of
                     Some (JStr api_url) \<Rightarrow>
                       Inr (rstrip ''/'' (replace ''https://'' [] (replace ''http://'' [] api_url)))
                   | _ \<Rightarrow> Inl (Raised ''AttributeError''))
                else Inl (ApiAddressFailed d))
           | _ \<Rightarrow> Inl (Raised ''AttributeError'')))"

definition get_optimal_api_ip ::
    "env \<Rightarrow> CalendarAPI \<Rightarrow> world \<Rightarrow> (exc + string) \<times> CalendarAPI \<times> world" where
  "get_optimal_api_ip e api w =
     (case http_get e (discovery_request api) w of
        (Inl x, w') \<Rightarrow> (Inl (Wrapped OptimalIp x), api, w')
      | (Inr d, w') \<Rightarrow>
          (case extract_ip d of
             Inl x \<Rightarrow> (Inl (Wrapped OptimalIp x), api, w')
           | Inr ip \<Rightarrow> (Inr ip, api\<lparr>current_ip := Some ip\<rparr>, w')))"

text \<open>\<^verbatim>\<open>if not self.current_ip\<close>: \<^verbatim>\<open>None\<close> and the empty string are both falsy.\<close>

definition ensure_ip :: "env \<Rightarrow> CalendarAPI \<Rightarrow> world \<Rightarrow> (exc + unit) \<times> CalendarAPI \<times> world" where
  "ensure_ip e api w =
     (if current_ip api = None \<or> current_ip api = Some [] then
        (case get_optimal_api_ip e api w of
           (Inl x, api', w') \<Rightarrow> (Inl x, api', w')
         | (Inr ip, api', w') \<Rightarrow> (Inr (), api', w'))
      else (Inr (), api, w))"

text \<open>
  The request of a fetch: \<^verbatim>\<open>f"http://{self.current_ip}/api/time/getzdday.php"\<close> for the day,
  \<^verbatim>\<open>getzddayh.php\<close> for the hour, with the five query parameters.
\<close>

definition calendar_path :: "dimension \<Rightarrow> string" where
  "calendar_path dim = (case dim of Day \<Rightarrow> ''/api/time/getzdday.php''
                                  | Hour \<Rightarrow> ''/api/time/getzddayh.php'')"

definition calendar_request :: "dimension \<Rightarrow> CalendarAPI \<Rightarrow> int \<Rightarrow> int \<Rightarrow> int \<Rightarrow> request" where
  "calendar_request dim api year month day =
     \<lparr>endpoint = Calendar dim,
      url = Some (''http://'' @ (case current_ip api of None \<Rightarrow> ''None'' | Some ip \<Rightarrow> ip)
                  @ calendar_path dim),
      params = [(''id'', JStr (id' api)), (''key'', JStr (key api)),
                (''nian'', JInt year), (''yue'', JInt month), (''ri'', JInt day)]\<rparr>"

text \<open>
  The \<^verbatim>\<open>try\<close> block shared by the two fetches: the request, the envelope test, and the
  \<^verbatim>\<open>except Exception as e: raise Exception(f"...: {str(e)}")\<close> with the prefix of the dimension.
\<close>

definition fetch_calendar ::
    "env \<Rightarrow> dimension \<Rightarrow> CalendarAPI \<Rightarrow> int \<Rightarrow> int \<Rightarrow> int \<Rightarrow> world \<Rightarrow> (exc + json) \<times> world" where
  "fetch_calendar e dim api year month day w =
     (case http_get e (calendar_request dim api year month day) w of
        (Inl x, w') \<Rightarrow> (Inl (Wrapped (Fetch dim) x), w')
      | (Inr d, w') \<Rightarrow>
          (case dict_get d ''code'' of
             Inl x \<Rightarrow> (Inl (Wrapped (Fetch dim) x), w')
           | Inr c \<Rightarrow>
               if c = JInt 200 then (Inr d, w')
               else (Inl (Wrapped (Fetch dim) (CalendarFailed dim d)), w')))"

text \<open>\<^verbatim>\<open>self.ensure_ip()\<close> is outside the \<^verbatim>\<open>try\<close>: what it raises is not wrapped again.\<close>

definition CalendarAPI_get_day_calendar ::
    "env \<Rightarrow> CalendarAPI \<Rightarrow> int \<Rightarrow> int \<Rightarrow> int \<Rightarrow> world \<Rightarrow> (exc + json) \<times> CalendarAPI \<times> world" where
  "CalendarAPI_get_day_calendar e api year month day w =
     (case ensure_ip e api w of
        (Inl x, api', w') \<Rightarrow> (Inl x, api', w')
      | (Inr u, api', w') \<Rightarrow>
          (case fetch_calendar e Day api' year month day w' of (r, w'') \<Rightarrow> (r, api', w'')))"

definition CalendarAPI_get_hour_calendar ::
    "env \<Rightarrow> CalendarAPI \<Rightarrow> int \<Rightarrow> int \<Rightarrow> int \<Rightarrow> world \<Rightarrow> (exc + json) \<times> CalendarAPI \<times> world" where
  "CalendarAPI_get_hour_calendar e api year month day w =
     (case ensure_ip e api w of
        (Inl x, api', w') \<Rightarrow> (Inl x, api', w')
      | (Inr u, api', w') \<Rightarrow>
          (case fetch_calendar e Hour api' year month day w' of (r, w'') \<Rightarrow> (r, api', w'')))"

section \<open>The orchestrator (agents/calander.py)\<close>

text \<open>
  \<^verbatim>\<open>f"{year}-{month:02d}-{day:02d}"\<close>: \<^verbatim>\<open>str\<close> of an integer, and the same zero-padded to
  width two (a negative number is already two characters wide).
\<close>

fun str_nat :: "nat \<Rightarrow> string" where
  "str_nat n =
     (if n < 10 then [''0123456789'' ! n]
      else str_nat (n div 10) @ [''0123456789'' ! (n mod 10)])"

declare str_nat.simps [simp del]

definition str_int :: "int \<Rightarrow> string" where
  "str_int i = (if i < 0 then ''-'' @ str_nat (nat (- i)) else str_nat (nat i))"

definition format_02d :: "int \<Rightarrow> string" where
  "format_02d i = (let s = str_int i in if length s < 2 then ''0'' @ s else s)"

definition date_str :: "int \<Rightarrow> int \<Rightarrow> int \<Rightarrow> string" where
  "date_str year month day = str_int year @ ''-'' @ format_02d month @ ''-'' @ format_02d day"

text \<open>
  \<^verbatim>\<open>json.dumps({"day_info": day_info, "hour_info": hour_info}, ensure_ascii=False, indent=2)\<close>,
  the value every successful path returns.
\<close>

definition calendar_data :: "env \<Rightarrow> json \<Rightarrow> json \<Rightarrow> string" where
  "calendar_data e day_info hour_info =
     dumps_indent e (JObj [(''day_info'', day_info), (''hour_info'', hour_info)])"

text \<open>
  The two statements \<^verbatim>\<open>day_info = api.get_day_calendar(year, month, day)\<close> and
  \<^verbatim>\<open>db.save_day_calendar(date_str, day_info)\<close>, which both branches contain (and the same
  for the hour). The boolean that the save returns is dropped, as in the source.
\<close>

definition refill_day ::
    "env \<Rightarrow> CalendarAPI \<Rightarrow> int \<Rightarrow> int \<Rightarrow> int \<Rightarrow> world \<Rightarrow> (exc + json) \<times> CalendarAPI \<times> world" where
  "refill_day e api year month day w =
     (case CalendarAPI_get_day_calendar e api year month day w of
        (Inl x, api', w') \<Rightarrow> (Inl x, api', w')
      | (Inr day_info, api', w') \<Rightarrow>
          (case SQLiteDB_save_day_calendar e (date_str year month day) day_info w' of
             (saved, w'') \<Rightarrow> (Inr day_info, api', w'')))"

definition refill_hour ::
    "env \<Rightarrow> CalendarAPI \<Rightarrow> int \<Rightarrow> int \<Rightarrow> int \<Rightarrow> world \<Rightarrow> (exc + json) \<times> CalendarAPI \<times> world" where
  "refill_hour e api year month day w =
     (case CalendarAPI_get_hour_calendar e api year month day w of
        (Inl x, api', w') \<Rightarrow> (Inl x, api', w')
      | (Inr hour_info, api', w') \<Rightarrow>
          (case SQLiteDB_save_hour_calendar e (date_str year month day) hour_info w' of
             (saved, w'') \<Rightarrow> (Inr hour_info, api', w'')))"

text \<open>The body of the \<^verbatim>\<open>try\<close> of \<^verbatim>\<open>get_calander_info\<close>.\<close>

definition calander_body ::
    "env \<Rightarrow> int \<Rightarrow> int \<Rightarrow> int \<Rightarrow> bool \<Rightarrow> world \<Rightarrow> (exc + string) \<times> world" where
  "calander_body e year month day force_refresh w =
     (case get_db e w of
        (Inl x, w0) \<Rightarrow> (Inl x, w0)
      | (Inr db, w0) \<Rightarrow>
          if force_refresh then
            (case refill_day e (CalendarAPI_init e) year month day w0 of
               (Inl x, api1, w1) \<Rightarrow> (Inl x, w1)
             | (Inr day_info, api1, w1) \<Rightarrow>
                 (case refill_hour e api1 year month day w1 of
                    (Inl x, api2, w2) \<Rightarrow> (Inl x, w2)
                  | (Inr hour_info, api2, w2) \<Rightarrow>
                      (Inr (calendar_data e day_info hour_info), w2)))
          else
            (case SQLiteDB_get_day_calendar e (date_str year month day) w0 of
               (day_info, w1) \<Rightarrow>
            (case SQLiteDB_get_hour_calendar e (date_str year month day) w1 of
               (hour_info, w2) \<Rightarrow>
            if truthy day_info \<and> truthy hour_info then
              (Inr (calendar_data e day_info hour_info), w2)
            else
              (case (if \<not> truthy day_info
                     then refill_day e (CalendarAPI_init e) year month day w2
                     else (Inr day_info, CalendarAPI_init e, w2)) of
                 (Inl x, api1, w3) \<Rightarrow> (Inl x, w3)
               | (Inr day_info', api1, w3) \<Rightarrow>
                   (case (if \<not> truthy hour_info
                          then refill_hour e api1 year month day w3
                          else (Inr hour_info, api1, w3)) of
                      (Inl x, api2, w4) \<Rightarrow> (Inl x, w4)
                    | (Inr hour_info', api2, w4) \<Rightarrow>
                        (Inr (calendar_data e day_info' hour_info'), w4))))))"

text \<open>The \<^verbatim>\<open>except Exception as e: raise Exception(f"...: {str(e)}")\<close> around the body.\<close>

definition get_calander_info ::
    "env \<Rightarrow> int \<Rightarrow> int \<Rightarrow> int \<Rightarrow> bool \<Rightarrow> world \<Rightarrow> (exc + string) \<times> world" where
  "get_calander_info e year month day force_refresh w =
     (case calander_body e year month day force_refresh w of
        (Inl x, w') \<Rightarrow> (Inl (Wrapped GetData x), w')
      | (Inr s, w') \<Rightarrow> (Inr s, w'))"

section \<open>Sequences of store calls, and a concrete environment\<close>

text \<open>Running a list of store calls one after the other, results dropped.\<close>

fun run_call :: "env \<Rightarrow> db_call \<Rightarrow> world \<Rightarrow> world" where
  "run_call e (GetDay date) w = snd (SQLiteDB_get_day_calendar e date w)"
| "run_call e (GetHour date) w = snd (SQLiteDB_get_hour_calendar e date w)"
| "run_call e (SaveDay date payload) w = snd (SQLiteDB_save_day_calendar e date payload w)"
| "run_call e (SaveHour date payload) w = snd (SQLiteDB_save_hour_calendar e date payload w)"

fun run_calls :: "env \<Rightarrow> db_call list \<Rightarrow> world \<Rightarrow> world" where
  "run_calls e [] w = w"
| "run_calls e (c # cs) w = run_calls e cs (run_call e c w)"

text \<open>
  Observations of a call that takes the world from \<open>w\<close> to \<open>w'\<close>: the HTTP calls it
  made, the fetches of one dimension among a list of HTTP calls, and that a request it made
  was answered with the body \<open>v\<close>.
\<close>

definition new_http :: "world \<Rightarrow> world \<Rightarrow> request list" where
  "new_http w w' = drop (length (http_calls w)) (http_calls w')"

definition fetches :: "dimension \<Rightarrow> request list \<Rightarrow> request list" where
  "fetches dim calls = filter (\<lambda>rq. endpoint rq = Calendar dim) calls"

definition answered :: "env \<Rightarrow> world \<Rightarrow> world \<Rightarrow> request \<Rightarrow> json \<Rightarrow> bool" where
  "answered e w w' rq v =
     (\<exists>n \<in> {length (http_calls w) ..< length (http_calls w')}.
        http_calls w' ! n = rq \<and> respond e n rq = Inr v)"

text \<open>
  \<^verbatim>\<open>json.dumps\<close> of a value is non-empty text that \<^verbatim>\<open>json.loads\<close> maps back to the value.
\<close>

definition codec_ok :: "env \<Rightarrow> json \<Rightarrow> bool" where
  "codec_ok e v = (dumps e v \<noteq> [] \<and> loads e (dumps e v) = Inr v)"

text \<open>
  What the two reads at the start of a call without \<^verbatim>\<open>force_refresh\<close> return: the day
  record read after \<^verbatim>\<open>get_db()\<close>, and the hour record read after that.
\<close>

definition cached_day :: "env \<Rightarrow> int \<Rightarrow> int \<Rightarrow> int \<Rightarrow> world \<Rightarrow> json" where
  "cached_day e year month day w =
     fst (SQLiteDB_get_day_calendar e (date_str year month day) (snd (get_db e w)))"

definition cached_hour :: "env \<Rightarrow> int \<Rightarrow> int \<Rightarrow> int \<Rightarrow> world \<Rightarrow> json" where
  "cached_hour e year month day w =
     fst (SQLiteDB_get_hour_calendar e (date_str year month day)
            (snd (SQLiteDB_get_day_calendar e (date_str year month day) (snd (get_db e w)))))"

text \<open>
  A concrete environment for the examples below: the discovery endpoint answers with an
  address, both fetches answer with a small record, no store transaction fails, and the
  JSON codec is given on the texts and values that occur (any other text is rejected by
  \<open>loads\<close>, as malformed text is).
\<close>

definition discovery_body :: json where
  "discovery_body = JObj [(''code'', JInt 200), (''api'', JStr ''http://10.0.0.1:8080/'')]"

definition day_body :: json where
  "day_body = JObj [(''code'', JInt 200), (''xingqi'', JInt 3)]"

definition hour_body :: json where
  "hour_body = JObj [(''code'', JInt 200), (''zi'', JInt 1)]"

definition day_text :: string where
  \<open>day_text = ''{"code": 200, "xingqi": 3}''\<close>

definition hour_text :: string where
  \<open>hour_text = ''{"code": 200, "zi": 1}''\<close>

definition pair_text :: string where
  \<open>pair_text =
     ''{'' @ [CHR 0x0A] @
     ''  "day_info": {'' @ [CHR 0x0A] @
     ''    "code": 200,'' @ [CHR 0x0A] @
     ''    "xingqi": 3'' @ [CHR 0x0A] @
     ''  },'' @ [CHR 0x0A] @
     ''  "hour_info": {'' @ [CHR 0x0A] @
     ''    "code": 200,'' @ [CHR 0x0A] @
     ''    "zi": 1'' @ [CHR 0x0A] @
     ''  }'' @ [CHR 0x0A] @
     ''}''\<close>

definition test_env :: env where
  "test_env =
     \<lparr>respond = (\<lambda>n rq. case endpoint rq of
                           Discovery \<Rightarrow> Inr discovery_body
                         | Calendar Day \<Rightarrow> Inr day_body
                         | Calendar Hour \<Rightarrow> Inr hour_body),
      db_fault = (\<lambda>n. None),
      now_at = (\<lambda>n. ''2025-01-01 08:00:0'' @ str_nat (n mod 10)),
      init_fault = None,
      dumps = (\<lambda>v. if v = day_body then day_text
                     else if v = hour_body then hour_text else ''{}''),
      dumps_indent = (\<lambda>v. if v = JObj [(''day_info'', day_body), (''hour_info'', hour_body)]
                            then pair_text else ''{}''),
      loads = (\<lambda>s. if s = day_text then Inr day_body
                     else if s = hour_text then Inr hour_body
                     else if s = ''{}'' then Inr (JObj [])
                     else Inl (Raised ''JSONDecodeError'')),
      getenv_CALENDAR_BASE_URL = Some ''http://discovery.example/api'',
      getenv_CALENDAR_API_ID = ''10001'',
      getenv_CALENDAR_API_KEY = ''secret''\<rparr>"

definition empty_world :: world where
  "empty_world =
     \<lparr>day_calendar = Map.empty, hour_calendar = Map.empty, db_instance = False,
      db_calls = [], http_calls = []\<rparr>"

text \<open>
  Variants: a store whose every transaction fails, a cache whose day row holds text that
  is not JSON, and a discovery endpoint that answers with an address that is empty once
  the scheme is removed.
\<close>

definition failing_store_env :: env where
  "failing_store_env = test_env\<lparr>db_fault := (\<lambda>n. Some (Raised ''OperationalError''))\<rparr>"

definition corrupt_world :: world where
  "corrupt_world =
     empty_world\<lparr>day_calendar :=
       [''2025-01-01'' \<mapsto> \<lparr>data = Some ''{'', create_time = ''2024-12-31 23:00:00'',
                             update_time = ''2024-12-31 23:00:00''\<rparr>]\<rparr>"

definition empty_address_env :: env where
  "empty_address_env =
     test_env\<lparr>respond := (\<lambda>n rq. case endpoint rq of
          Discovery \<Rightarrow> Inr (JObj [(''code'', JInt 200), (''api'', JStr ''http://'')])
        | Calendar dim \<Rightarrow> Inl (Raised ''InvalidURL''))\<rparr>"

text \<open>
  Caches for the date 2025-01-01: one with a stale row in each table (each holds the other
  dimension's record), one with the hour row only, and one whose day row has an empty
  \<^verbatim>\<open>data\<close> column beside a good hour row.
\<close>

definition stale_world :: world where
  "stale_world =
     empty_world\<lparr>
       day_calendar :=
         [''2025-01-01'' \<mapsto> \<lparr>data = Some hour_text, create_time = ''2024-12-31 23:00:00'',
                               update_time = ''2024-12-31 23:00:00''\<rparr>],
       hour_calendar :=
         [''2025-01-01'' \<mapsto> \<lparr>data = Some day_text, create_time = ''2024-12-31 23:00:00'',
                               update_time = ''2024-12-31 23:00:00''\<rparr>]\<rparr>"

definition hour_only_world :: world where
  "hour_only_world =
     empty_world\<lparr>
       hour_calendar :=
         [''2025-01-01'' \<mapsto> \<lparr>data = Some hour_text, create_time = ''2024-12-31 23:00:00'',
                               update_time = ''2024-12-31 23:00:00''\<rparr>]\<rparr>"

definition blank_day_world :: world where
  "blank_day_world =
     hour_only_world\<lparr>
       day_calendar :=
         [''2025-01-01'' \<mapsto> \<lparr>data = Some [], create_time = ''2024-12-31 23:00:00'',
                               update_time = ''2024-12-31 23:00:00''\<rparr>]\<rparr>"

section \<open>Facts of the concrete environment\<close>

lemma day_text_neq: "day_text \<noteq> hour_text" "day_text \<noteq> []" "hour_text \<noteq> []"
  "day_text \<noteq> ''{''" "hour_text \<noteq> ''{''" "day_body \<noteq> hour_body"
  by (simp_all add: day_text_def hour_text_def day_body_def hour_body_def)

lemma test_env_simps:
  "db_fault test_env n = None"
  "init_fault test_env = None"
  "dumps test_env day_body = day_text"
  "dumps test_env hour_body = hour_text"
  "loads test_env day_text = Inr day_body"
  "loads test_env hour_text = Inr hour_body"
  "loads test_env ''{'' = Inl (Raised ''JSONDecodeError'')"
  "now_at test_env 0 = ''2025-01-01 08:00:00''"
  "now_at test_env (Suc 0) = ''2025-01-01 08:00:01''"
  "respond test_env n rq = (case endpoint rq of
                           Discovery \<Rightarrow> Inr discovery_body
                         | Calendar Day \<Rightarrow> Inr day_body
                         | Calendar Hour \<Rightarrow> Inr hour_body)"
  "getenv_CALENDAR_BASE_URL test_env = Some ''http://discovery.example/api''"
  "getenv_CALENDAR_API_ID test_env = ''10001''"
  "getenv_CALENDAR_API_KEY test_env = ''secret''"
  by (simp_all add: test_env_def str_nat.simps day_text_neq day_text_neq [symmetric])

lemma now_at_2:
  "now_at test_env (Suc (Suc 0)) = ''2025-01-01 08:00:02''"
  "now_at test_env 2 = ''2025-01-01 08:00:02''"
proof -
  have "Suc (Suc 0) mod 10 = (2::nat)" by simp
  then show "now_at test_env (Suc (Suc 0)) = ''2025-01-01 08:00:02''"
    by (simp add: test_env_def str_nat.simps)
  then show "now_at test_env 2 = ''2025-01-01 08:00:02''"
    by (simp add: numeral_2_eq_2)
qed

lemma failing_store_env_simps:
  "db_fault failing_store_env n = Some (Raised ''OperationalError'')"
  "init_fault failing_store_env = None"
  "dumps failing_store_env = dumps test_env"
  "dumps_indent failing_store_env = dumps_indent test_env"
  "loads failing_store_env = loads test_env"
  "respond failing_store_env = respond test_env"
  "getenv_CALENDAR_BASE_URL failing_store_env = Some ''http://discovery.example/api''"
  "getenv_CALENDAR_API_ID failing_store_env = ''10001''"
  "getenv_CALENDAR_API_KEY failing_store_env = ''secret''"
  by (simp_all add: failing_store_env_def test_env_simps)

section \<open>The store: what its calls return and change\<close>

lemma save_day_fault:
  "db_fault e (length (db_calls w)) = Some x \<Longrightarrow>
   SQLiteDB_save_day_calendar e date payload w =
     (False, w\<lparr>db_calls := db_calls w @ [SaveDay date payload]\<rparr>)"
  by (simp add: SQLiteDB_save_day_calendar_def upsert_def)

lemma save_hour_fault:
  "db_fault e (length (db_calls w)) = Some x \<Longrightarrow>
   SQLiteDB_save_hour_calendar e date payload w =
     (False, w\<lparr>db_calls := db_calls w @ [SaveHour date payload]\<rparr>)"
  by (simp add: SQLiteDB_save_hour_calendar_def upsert_def)

lemma save_day_ok:
  "db_fault e (length (db_calls w)) = None \<Longrightarrow>
   SQLiteDB_save_day_calendar e date payload w =
     (True, w\<lparr>db_calls := db_calls w @ [SaveDay date payload],
              day_calendar := (day_calendar w)(date \<mapsto>
                (case day_calendar w date of
                   None \<Rightarrow> \<lparr>data = Some (dumps e payload),
                             create_time = now_at e (length (db_calls w)),
                             update_time = now_at e (length (db_calls w))\<rparr>
                 | Some r \<Rightarrow> r\<lparr>data := Some (dumps e payload),
                                update_time := now_at e (length (db_calls w))\<rparr>))\<rparr>)"
  by (simp add: SQLiteDB_save_day_calendar_def upsert_def Let_def)

lemma save_hour_ok:
  "db_fault e (length (db_calls w)) = None \<Longrightarrow>
   SQLiteDB_save_hour_calendar e date payload w =
     (True, w\<lparr>db_calls := db_calls w @ [SaveHour date payload],
              hour_calendar := (hour_calendar w)(date \<mapsto>
                (case hour_calendar w date of
                   None \<Rightarrow> \<lparr>data = Some (dumps e payload),
                             create_time = now_at e (length (db_calls w)),
                             update_time = now_at e (length (db_calls w))\<rparr>
                 | Some r \<Rightarrow> r\<lparr>data := Some (dumps e payload),
                                update_time := now_at e (length (db_calls w))\<rparr>))\<rparr>)"
  by (simp add: SQLiteDB_save_hour_calendar_def upsert_def Let_def)

lemma get_day_world:
  "snd (SQLiteDB_get_day_calendar e date w) = w\<lparr>db_calls := db_calls w @ [GetDay date]\<rparr>"
  by (simp add: SQLiteDB_get_day_calendar_def Let_def split: sum.splits)

lemma get_hour_world:
  "snd (SQLiteDB_get_hour_calendar e date w) = w\<lparr>db_calls := db_calls w @ [GetHour date]\<rparr>"
  by (simp add: SQLiteDB_get_hour_calendar_def Let_def split: sum.splits)

lemma run_call_day_create_time:
  assumes "day_calendar w date = Some r"
  shows "\<exists>r'. day_calendar (run_call e c w) date = Some r' \<and> create_time r' = create_time r"
proof (cases c)
  case (SaveDay d p)
  show ?thesis
  proof (cases "db_fault e (length (db_calls w))")
    case None
    with assms SaveDay show ?thesis by (auto simp: save_day_ok split: option.splits)
  next
    case (Some x)
    with assms SaveDay show ?thesis by (simp add: save_day_fault)
  qed
next
  case (SaveHour d p)
  show ?thesis
  proof (cases "db_fault e (length (db_calls w))")
    case None
    with assms SaveHour show ?thesis by (simp add: save_hour_ok)
  next
    case (Some x)
    with assms SaveHour show ?thesis by (simp add: save_hour_fault)
  qed
qed (use assms in \<open>simp_all add: get_day_world get_hour_world\<close>)

lemma run_call_hour_create_time:
  assumes "hour_calendar w date = Some r"
  shows "\<exists>r'. hour_calendar (run_call e c w) date = Some r' \<and> create_time r' = create_time r"
proof (cases c)
  case (SaveDay d p)
  show ?thesis
  proof (cases "db_fault e (length (db_calls w))")
    case None
    with assms SaveDay show ?thesis by (simp add: save_day_ok)
  next
    case (Some x)
    with assms SaveDay show ?thesis by (simp add: save_day_fault)
  qed
next
  case (SaveHour d p)
  show ?thesis
  proof (cases "db_fault e (length (db_calls w))")
    case None
    with assms SaveHour show ?thesis by (auto simp: save_hour_ok split: option.splits)
  next
    case (Some x)
    with assms SaveHour show ?thesis by (simp add: save_hour_fault)
  qed
qed (use assms in \<open>simp_all add: get_day_world get_hour_world\<close>)

lemma run_calls_day_create_time:
  "day_calendar w date = Some r \<Longrightarrow>
   \<exists>r'. day_calendar (run_calls e cs w) date = Some r' \<and> create_time r' = create_time r"
proof (induction cs arbitrary: w r)
  case Nil
  then show ?case by simp
next
  case (Cons c cs)
  from run_call_day_create_time [OF Cons.prems, of e c]
  obtain r1 where r1: "day_calendar (run_call e c w) date = Some r1"
    and c1: "create_time r1 = create_time r" by blast
  from Cons.IH [OF r1] c1 show ?case by simp
qed

lemma run_calls_hour_create_time:
  "hour_calendar w date = Some r \<Longrightarrow>
   \<exists>r'. hour_calendar (run_calls e cs w) date = Some r' \<and> create_time r' = create_time r"
proof (induction cs arbitrary: w r)
  case Nil
  then show ?case by simp
next
  case (Cons c cs)
  from run_call_hour_create_time [OF Cons.prems, of e c]
  obtain r1 where r1: "hour_calendar (run_call e c w) date = Some r1"
    and c1: "create_time r1 = create_time r" by blast
  from Cons.IH [OF r1] c1 show ?case by simp
qed

text \<open>
  Claim C9. The two save operations never raise: whatever exception the transaction meets,
  the call returns \<open>False\<close> and leaves both tables as they were (only the call is
  recorded); it returns \<open>True\<close> exactly when no exception occurs, and then the table holds
  the committed upsert.
\<close>

theorem save_never_raises:
  "fst (SQLiteDB_save_day_calendar e date payload w) = (db_fault e (length (db_calls w)) = None)
   \<and> fst (SQLiteDB_save_hour_calendar e date payload w) = (db_fault e (length (db_calls w)) = None)
   \<and> (db_fault e (length (db_calls w)) \<noteq> None \<longrightarrow>
        snd (SQLiteDB_save_day_calendar e date payload w)
          = w\<lparr>db_calls := db_calls w @ [SaveDay date payload]\<rparr>
        \<and> snd (SQLiteDB_save_hour_calendar e date payload w)
          = w\<lparr>db_calls := db_calls w @ [SaveHour date payload]\<rparr>)
   \<and> (fst (SQLiteDB_save_day_calendar e date payload w) \<longrightarrow>
        upsert e (length (db_calls w)) (day_calendar w) date payload
          = Inr (day_calendar (snd (SQLiteDB_save_day_calendar e date payload w))))
   \<and> (fst (SQLiteDB_save_hour_calendar e date payload w) \<longrightarrow>
        upsert e (length (db_calls w)) (hour_calendar w) date payload
          = Inr (hour_calendar (snd (SQLiteDB_save_hour_calendar e date payload w))))"
proof (cases "db_fault e (length (db_calls w))")
  case None
  then show ?thesis
    by (simp add: save_day_ok save_hour_ok) (simp add: upsert_def Let_def)
next
  case (Some x)
  then show ?thesis by (simp add: save_day_fault save_hour_fault)
qed

theorem save_never_raises_witness:
  "fst (SQLiteDB_save_day_calendar failing_store_env ''2025-01-01'' day_body empty_world) = False
   \<and> day_calendar (snd (SQLiteDB_save_day_calendar failing_store_env ''2025-01-01'' day_body
        empty_world)) ''2025-01-01'' = None
   \<and> fst (SQLiteDB_save_hour_calendar test_env ''2025-01-01'' hour_body empty_world) = True
   \<and> hour_calendar (snd (SQLiteDB_save_hour_calendar test_env ''2025-01-01'' hour_body
        empty_world)) ''2025-01-01''
       = Some \<lparr>data = Some hour_text, create_time = ''2025-01-01 08:00:00'',
                update_time = ''2025-01-01 08:00:00''\<rparr>"
  using save_never_raises [of failing_store_env "''2025-01-01''" day_body empty_world]
    save_never_raises [of test_env "''2025-01-01''" hour_body empty_world]
  by (simp add: SQLiteDB_save_day_calendar_def SQLiteDB_save_hour_calendar_def upsert_def
      Let_def test_env_simps failing_store_env_simps empty_world_def)

text \<open>
  Claim C3. On either table, a save whose transaction meets no exception returns \<open>True\<close>
  and changes the world in exactly one row: on a date with no row it inserts a row whose
  \<open>create_time\<close> and \<open>update_time\<close> are both the current time; on a date with a row it
  replaces that row's \<open>data\<close> and \<open>update_time\<close> and nothing else. Whenever a save returns
  \<open>True\<close> the row is as just described, and once a row exists, no sequence of store calls
  (successful or failed, on either table) changes its \<open>create_time\<close>.
\<close>

theorem upsert_keeps_create_time:
  "(db_fault e (length (db_calls w)) = None \<and> day_calendar w date = None \<longrightarrow>
      SQLiteDB_save_day_calendar e date payload w =
        (True, w\<lparr>db_calls := db_calls w @ [SaveDay date payload],
                 day_calendar := (day_calendar w)(date \<mapsto>
                   \<lparr>data = Some (dumps e payload),
                    create_time = now_at e (length (db_calls w)),
                    update_time = now_at e (length (db_calls w))\<rparr>)\<rparr>))
   \<and> (db_fault e (length (db_calls w)) = None \<and> day_calendar w date = Some r \<longrightarrow>
      SQLiteDB_save_day_calendar e date payload w =
        (True, w\<lparr>db_calls := db_calls w @ [SaveDay date payload],
                 day_calendar := (day_calendar w)(date \<mapsto>
                   r\<lparr>data := Some (dumps e payload),
                     update_time := now_at e (length (db_calls w))\<rparr>)\<rparr>))
   \<and> (db_fault e (length (db_calls w)) = None \<and> hour_calendar w date = None \<longrightarrow>
      SQLiteDB_save_hour_calendar e date payload w =
        (True, w\<lparr>db_calls := db_calls w @ [SaveHour date payload],
                 hour_calendar := (hour_calendar w)(date \<mapsto>
                   \<lparr>data = Some (dumps e payload),
                    create_time = now_at e (length (db_calls w)),
                    update_time = now_at e (length (db_calls w))\<rparr>)\<rparr>))
   \<and> (db_fault e (length (db_calls w)) = None \<and> hour_calendar w date = Some r \<longrightarrow>
      SQLiteDB_save_hour_calendar e date payload w =
        (True, w\<lparr>db_calls := db_calls w @ [SaveHour date payload],
                 hour_calendar := (hour_calendar w)(date \<mapsto>
                   r\<lparr>data := Some (dumps e payload),
                     update_time := now_at e (length (db_calls w))\<rparr>)\<rparr>))
   \<and> (fst (SQLiteDB_save_day_calendar e date payload w) \<and> day_calendar w date = None \<longrightarrow>
      day_calendar (snd (SQLiteDB_save_day_calendar e date payload w)) date
        = Some \<lparr>data = Some (dumps e payload),
                 create_time = now_at e (length (db_calls w)),
                 update_time = now_at e (length (db_calls w))\<rparr>)
   \<and> (fst (SQLiteDB_save_day_calendar e date payload w) \<and> day_calendar w date = Some r \<longrightarrow>
      day_calendar (snd (SQLiteDB_save_day_calendar e date payload w)) date
        = Some (r\<lparr>data := Some (dumps e payload),
                  update_time := now_at e (length (db_calls w))\<rparr>))
   \<and> (fst (SQLiteDB_save_hour_calendar e date payload w) \<and> hour_calendar w date = None \<longrightarrow>
      hour_calendar (snd (SQLiteDB_save_hour_calendar e date payload w)) date
        = Some \<lparr>data = Some (dumps e payload),
                 create_time = now_at e (length (db_calls w)),
                 update_time = now_at e (length (db_calls w))\<rparr>)
   \<and> (fst (SQLiteDB_save_hour_calendar e date payload w) \<and> hour_calendar w date = Some r \<longrightarrow>
      hour_calendar (snd (SQLiteDB_save_hour_calendar e date payload w)) date
        = Some (r\<lparr>data := Some (dumps e payload),
                  update_time := now_at e (length (db_calls w))\<rparr>))
   \<and> (day_calendar w date = Some r \<longrightarrow>
        (\<exists>r'. day_calendar (run_calls e cs w) date = Some r' \<and> create_time r' = create_time r))
   \<and> (hour_calendar w date = Some r \<longrightarrow>
        (\<exists>r'. hour_calendar (run_calls e cs w) date = Some r' \<and> create_time r' = create_time r))"
proof (cases "db_fault e (length (db_calls w))")
  case None
  then show ?thesis
    using run_calls_day_create_time [of w date r e cs]
      run_calls_hour_create_time [of w date r e cs]
    by (simp add: save_day_ok save_hour_ok)
next
  case (Some x)
  then show ?thesis
    using run_calls_day_create_time [of w date r e cs]
      run_calls_hour_create_time [of w date r e cs]
    by (simp add: save_day_fault save_hour_fault)
qed

theorem upsert_keeps_create_time_witness:
  "day_calendar (snd (SQLiteDB_save_day_calendar test_env ''2025-01-01'' day_body empty_world))
      ''2025-01-01''
     = Some \<lparr>data = Some day_text, create_time = ''2025-01-01 08:00:00'',
              update_time = ''2025-01-01 08:00:00''\<rparr>
   \<and> day_calendar (run_calls test_env
         [SaveDay ''2025-01-01'' day_body, SaveDay ''2025-01-01'' hour_body] empty_world)
      ''2025-01-01''
     = Some \<lparr>data = Some hour_text, create_time = ''2025-01-01 08:00:00'',
              update_time = ''2025-01-01 08:00:01''\<rparr>
   \<and> SQLiteDB_save_hour_calendar test_env ''2025-01-01'' hour_body empty_world
     = (True, empty_world\<lparr>db_calls := [SaveHour ''2025-01-01'' hour_body],
          hour_calendar := [''2025-01-01'' \<mapsto>
            \<lparr>data = Some hour_text, create_time = ''2025-01-01 08:00:00'',
             update_time = ''2025-01-01 08:00:00''\<rparr>]\<rparr>)
   \<and> hour_calendar (run_calls test_env
         [SaveHour ''2025-01-01'' hour_body, SaveHour ''2025-01-01'' day_body] empty_world)
      ''2025-01-01''
     = Some \<lparr>data = Some day_text, create_time = ''2025-01-01 08:00:00'',
              update_time = ''2025-01-01 08:00:01''\<rparr>"
proof -
  let ?d = "''2025-01-01''"
  have nf: "\<And>w. db_fault test_env (length (db_calls w)) = None" by (simp add: test_env_simps)
  have e0: "day_calendar empty_world = Map.empty" "hour_calendar empty_world = Map.empty"
    "db_calls empty_world = []"
    by (simp_all add: empty_world_def)
  from upsert_keeps_create_time [where e = test_env and date = ?d and payload = day_body
      and w = empty_world] nf e0
  have d1: "SQLiteDB_save_day_calendar test_env ?d day_body empty_world
     = (True, empty_world\<lparr>db_calls := [SaveDay ?d day_body],
          day_calendar := [?d \<mapsto>
            \<lparr>data = Some day_text, create_time = ''2025-01-01 08:00:00'',
             update_time = ''2025-01-01 08:00:00''\<rparr>]\<rparr>)"
    by (simp add: test_env_simps)
  from upsert_keeps_create_time [where e = test_env and date = ?d and payload = hour_body
      and w = empty_world] nf e0
  have h1: "SQLiteDB_save_hour_calendar test_env ?d hour_body empty_world
     = (True, empty_world\<lparr>db_calls := [SaveHour ?d hour_body],
          hour_calendar := [?d \<mapsto>
            \<lparr>data = Some hour_text, create_time = ''2025-01-01 08:00:00'',
             update_time = ''2025-01-01 08:00:00''\<rparr>]\<rparr>)"
    by (simp add: test_env_simps)
  let ?rd = "\<lparr>data = Some day_text, create_time = ''2025-01-01 08:00:00'',
             update_time = ''2025-01-01 08:00:00''\<rparr>"
  let ?rh = "\<lparr>data = Some hour_text, create_time = ''2025-01-01 08:00:00'',
             update_time = ''2025-01-01 08:00:00''\<rparr>"
  let ?wd = "empty_world\<lparr>db_calls := [SaveDay ?d day_body], day_calendar := [?d \<mapsto> ?rd]\<rparr>"
  let ?wh = "empty_world\<lparr>db_calls := [SaveHour ?d hour_body], hour_calendar := [?d \<mapsto> ?rh]\<rparr>"
  from upsert_keeps_create_time [where e = test_env and date = ?d and payload = hour_body
      and w = ?wd and r = ?rd] nf [of ?wd]
  have d2: "day_calendar (snd (SQLiteDB_save_day_calendar test_env ?d hour_body ?wd)) ?d
     = Some \<lparr>data = Some hour_text, create_time = ''2025-01-01 08:00:00'',
              update_time = ''2025-01-01 08:00:01''\<rparr>"
    by (simp add: test_env_simps)
  from upsert_keeps_create_time [where e = test_env and date = ?d and payload = day_body
      and w = ?wh and r = ?rh] nf [of ?wh]
  have h2: "hour_calendar (snd (SQLiteDB_save_hour_calendar test_env ?d day_body ?wh)) ?d
     = Some \<lparr>data = Some day_text, create_time = ''2025-01-01 08:00:00'',
              update_time = ''2025-01-01 08:00:01''\<rparr>"
    by (simp add: test_env_simps)
  from d1 h1 d2 h2 show ?thesis by simp
qed

text \<open>
  Claim C2, as amended. A getter returns \<^verbatim>\<open>None\<close> when no row exists, the decoded payload
  when a row holds non-empty well-formed text and the transaction does not fail, and
  \<^verbatim>\<open>None\<close> again when the stored text is malformed: the decode exception is caught inside
  the getter, so no distinct decode error reaches the caller.
\<close>

theorem get_outcomes:
  "(day_calendar w date = None \<longrightarrow> fst (SQLiteDB_get_day_calendar e date w) = JNull)
   \<and> (day_calendar w date = Some r \<and> data r = Some s \<and> s \<noteq> [] \<and> loads e s = Inr v
        \<and> db_fault e (length (db_calls w)) = None \<longrightarrow>
        fst (SQLiteDB_get_day_calendar e date w) = v)
   \<and> (day_calendar w date = Some r \<and> data r = Some s \<and> loads e s = Inl x \<longrightarrow>
        fst (SQLiteDB_get_day_calendar e date w) = JNull)
   \<and> (hour_calendar w date = None \<longrightarrow> fst (SQLiteDB_get_hour_calendar e date w) = JNull)
   \<and> (hour_calendar w date = Some r \<and> data r = Some s \<and> s \<noteq> [] \<and> loads e s = Inr v
        \<and> db_fault e (length (db_calls w)) = None \<longrightarrow>
        fst (SQLiteDB_get_hour_calendar e date w) = v)
   \<and> (hour_calendar w date = Some r \<and> data r = Some s \<and> loads e s = Inl x \<longrightarrow>
        fst (SQLiteDB_get_hour_calendar e date w) = JNull)"
  by (simp add: SQLiteDB_get_day_calendar_def SQLiteDB_get_hour_calendar_def select_data_def
      Let_def split: option.splits sum.splits)

theorem get_outcomes_witness:
  "fst (SQLiteDB_get_day_calendar test_env ''2025-01-01''
          (snd (SQLiteDB_save_day_calendar test_env ''2025-01-01'' day_body empty_world)))
     = day_body
   \<and> fst (SQLiteDB_get_day_calendar test_env ''2025-01-01'' empty_world) = JNull
   \<and> fst (SQLiteDB_get_day_calendar test_env ''2025-01-01'' corrupt_world) = JNull"
  using
    get_outcomes [of "snd (SQLiteDB_save_day_calendar test_env ''2025-01-01'' day_body empty_world)"
      "''2025-01-01''" test_env
      "\<lparr>data = Some day_text, create_time = ''2025-01-01 08:00:00'',
        update_time = ''2025-01-01 08:00:00''\<rparr>" day_text day_body]
    get_outcomes [of empty_world "''2025-01-01''" test_env]
    get_outcomes [of corrupt_world "''2025-01-01''" test_env
      "\<lparr>data = Some ''{'', create_time = ''2024-12-31 23:00:00'',
        update_time = ''2024-12-31 23:00:00''\<rparr>" "''{''" _ "Raised ''JSONDecodeError''"]
  by (simp add: save_day_ok test_env_simps empty_world_def corrupt_world_def day_text_neq)

text \<open>
  Claim C2 as stated fails: a row whose text \<^verbatim>\<open>{\<close> is rejected by \<^verbatim>\<open>json.loads\<close> is read
  as \<^verbatim>\<open>None\<close>, exactly like a date with no row.
\<close>

theorem malformed_row_reads_as_absent:
  "day_calendar corrupt_world ''2025-01-01''
     = Some \<lparr>data = Some ''{'', create_time = ''2024-12-31 23:00:00'',
              update_time = ''2024-12-31 23:00:00''\<rparr>
   \<and> loads test_env ''{'' = Inl (Raised ''JSONDecodeError'')
   \<and> day_calendar empty_world ''2025-01-01'' = None
   \<and> fst (SQLiteDB_get_day_calendar test_env ''2025-01-01'' corrupt_world) = JNull
   \<and> fst (SQLiteDB_get_day_calendar test_env ''2025-01-01'' empty_world) = JNull"
  by (simp add: SQLiteDB_get_day_calendar_def select_data_def Let_def test_env_simps
      empty_world_def corrupt_world_def)

section \<open>The client: what its calls return and request\<close>

lemma fetches_simps [simp]:
  "fetches dim [] = []"
  "fetches dim (xs @ ys) = fetches dim xs @ fetches dim ys"
  "fetches dim [discovery_request api] = []"
  "fetches dim [calendar_request dim' api y m d]
     = (if dim' = dim then [calendar_request dim' api y m d] else [])"
  by (auto simp: fetches_def discovery_request_def calendar_request_def)

lemma get_optimal_api_ip_cases:
  assumes "get_optimal_api_ip e api w = (r, api', w')"
  shows "w' = w\<lparr>http_calls := http_calls w @ [discovery_request api]\<rparr>
         \<and> (case r of
               Inl x \<Rightarrow> api' = api \<and> (\<exists>c. x = Wrapped OptimalIp c)
             | Inr ip \<Rightarrow> api' = api\<lparr>current_ip := Some ip\<rparr>)"
  using assms
  by (auto simp: get_optimal_api_ip_def http_get_def split: sum.splits)

lemma ensure_ip_cached:
  "current_ip api = Some ip \<Longrightarrow> ip \<noteq> [] \<Longrightarrow> ensure_ip e api w = (Inr (), api, w)"
  by (simp add: ensure_ip_def)

lemma ensure_ip_cases:
  assumes "ensure_ip e api w = (r, api', w')"
  shows "\<exists>calls. w' = w\<lparr>http_calls := http_calls w @ calls\<rparr>
           \<and> (\<forall>dim. fetches dim calls = [])
           \<and> (\<forall>x. r = Inl x \<longrightarrow> (\<exists>c. x = Wrapped OptimalIp c))"
proof (cases "current_ip api = None \<or> current_ip api = Some []")
  case True
  obtain r0 a0 w0 where g: "get_optimal_api_ip e api w = (r0, a0, w0)"
    by (cases "get_optimal_api_ip e api w") auto
  from get_optimal_api_ip_cases [OF g] g assms True
  have "w' = w\<lparr>http_calls := http_calls w @ [discovery_request api]\<rparr>
        \<and> (\<forall>x. r = Inl x \<longrightarrow> (\<exists>c. x = Wrapped OptimalIp c))"
    by (auto simp: ensure_ip_def split: sum.splits)
  then show ?thesis
    by (intro exI [of _ "[discovery_request api]"]) simp
next
  case False
  with assms have "w' = w" "r = Inr ()" by (auto simp: ensure_ip_def)
  then show ?thesis by (intro exI [of _ "[]"]) simp
qed

lemma fetch_calendar_cases:
  assumes "fetch_calendar e dim api y m d w = (r, w')"
  shows "w' = w\<lparr>http_calls := http_calls w @ [calendar_request dim api y m d]\<rparr>
         \<and> (case r of
               Inl x \<Rightarrow> \<exists>c. x = Wrapped (Fetch dim) c
             | Inr v \<Rightarrow> respond e (length (http_calls w)) (calendar_request dim api y m d) = Inr v
                        \<and> dict_get v ''code'' = Inr (JInt 200))"
  using assms
  by (auto simp: fetch_calendar_def http_get_def split: sum.splits if_splits)

lemma code_200_truthy: "dict_get v ''code'' = Inr (JInt 200) \<Longrightarrow> truthy v"
  by (cases v) (auto simp: dict_get_def split: option.splits)

text \<open>
  Claim C7. Once \<^verbatim>\<open>ensure_ip\<close> has returned (an address is known), each of the two fetches
  returns the parsed body verbatim when its \<^verbatim>\<open>code\<close> equals 200; it raises the exception of
  its own dimension, carrying the cause, when the request fails or the envelope's code is not
  200; and it returns a value only if the request succeeded with code 200.
\<close>

theorem fetch_returns_body_iff_code_200:
  assumes "ensure_ip e api w = (Inr u, api', w')"
  shows
    "(\<forall>body. respond e (length (http_calls w')) (calendar_request Day api' year month day) = Inr body
         \<and> dict_get body ''code'' = Inr (JInt 200) \<longrightarrow>
       fst (CalendarAPI_get_day_calendar e api year month day w) = Inr body)
     \<and> (\<forall>x. respond e (length (http_calls w')) (calendar_request Day api' year month day) = Inl x \<longrightarrow>
       fst (CalendarAPI_get_day_calendar e api year month day w) = Inl (Wrapped (Fetch Day) x))
     \<and> (\<forall>body. respond e (length (http_calls w')) (calendar_request Day api' year month day) = Inr body
         \<and> dict_get body ''code'' \<noteq> Inr (JInt 200) \<longrightarrow>
       (\<exists>cause. fst (CalendarAPI_get_day_calendar e api year month day w)
                  = Inl (Wrapped (Fetch Day) cause)))
     \<and> (\<forall>v. fst (CalendarAPI_get_day_calendar e api year month day w) = Inr v \<longrightarrow>
       respond e (length (http_calls w')) (calendar_request Day api' year month day) = Inr v
       \<and> dict_get v ''code'' = Inr (JInt 200))
     \<and> (\<forall>body. respond e (length (http_calls w')) (calendar_request Hour api' year month day) = Inr body
         \<and> dict_get body ''code'' = Inr (JInt 200) \<longrightarrow>
       fst (CalendarAPI_get_hour_calendar e api year month day w) = Inr body)
     \<and> (\<forall>x. respond e (length (http_calls w')) (calendar_request Hour api' year month day) = Inl x \<longrightarrow>
       fst (CalendarAPI_get_hour_calendar e api year month day w) = Inl (Wrapped (Fetch Hour) x))
     \<and> (\<forall>body. respond e (length (http_calls w')) (calendar_request Hour api' year month day) = Inr body
         \<and> dict_get body ''code'' \<noteq> Inr (JInt 200) \<longrightarrow>
       (\<exists>cause. fst (CalendarAPI_get_hour_calendar e api year month day w)
                  = Inl (Wrapped (Fetch Hour) cause)))
     \<and> (\<forall>v. fst (CalendarAPI_get_hour_calendar e api year month day w) = Inr v \<longrightarrow>
       respond e (length (http_calls w')) (calendar_request Hour api' year month day) = Inr v
       \<and> dict_get v ''code'' = Inr (JInt 200))"
proof -
  have day: "fst (CalendarAPI_get_day_calendar e api year month day w)
               = fst (fetch_calendar e Day api' year month day w')"
    using assms by (simp add: CalendarAPI_get_day_calendar_def split: prod.splits)
  have hour: "fst (CalendarAPI_get_hour_calendar e api year month day w)
               = fst (fetch_calendar e Hour api' year month day w')"
    using assms by (simp add: CalendarAPI_get_hour_calendar_def split: prod.splits)
  have "\<And>dim. fst (fetch_calendar e dim api' year month day w')
          = (case respond e (length (http_calls w')) (calendar_request dim api' year month day) of
               Inl x \<Rightarrow> Inl (Wrapped (Fetch dim) x)
             | Inr body \<Rightarrow>
                 (case dict_get body ''code'' of
                    Inl x \<Rightarrow> Inl (Wrapped (Fetch dim) x)
                  | Inr c \<Rightarrow> if c = JInt 200 then Inr body
                             else Inl (Wrapped (Fetch dim) (CalendarFailed dim body))))"
    by (simp add: fetch_calendar_def http_get_def split: sum.splits)
  then show ?thesis
    unfolding day hour by (auto split: sum.splits if_splits)
qed

lemma empty_address_env_simps:
  "respond empty_address_env n rq = (case endpoint rq of
          Discovery \<Rightarrow> Inr (JObj [(''code'', JInt 200), (''api'', JStr ''http://'')])
        | Calendar dim \<Rightarrow> Inl (Raised ''InvalidURL''))"
  "getenv_CALENDAR_BASE_URL empty_address_env = Some ''http://discovery.example/api''"
  "getenv_CALENDAR_API_ID empty_address_env = ''10001''"
  "getenv_CALENDAR_API_KEY empty_address_env = ''secret''"
  by (simp_all add: empty_address_env_def test_env_simps)

lemma test_env_ensure_ip:
  "ensure_ip test_env (CalendarAPI_init test_env) w
     = (Inr (), (CalendarAPI_init test_env)\<lparr>current_ip := Some ''10.0.0.1:8080''\<rparr>,
        w\<lparr>http_calls := http_calls w @ [discovery_request (CalendarAPI_init test_env)]\<rparr>)"
  by (simp add: ensure_ip_def get_optimal_api_ip_def http_get_def extract_ip_def dict_get_def
      CalendarAPI_init_def discovery_request_def test_env_simps discovery_body_def rstrip_def)

lemma empty_address_env_ensure_ip:
  "current_ip api = None \<or> current_ip api = Some [] \<Longrightarrow>
   ensure_ip empty_address_env api w
     = (Inr (), api\<lparr>current_ip := Some []\<rparr>,
        w\<lparr>http_calls := http_calls w @ [discovery_request api]\<rparr>)"
  by (simp add: ensure_ip_def get_optimal_api_ip_def http_get_def extract_ip_def dict_get_def
      discovery_request_def empty_address_env_simps rstrip_def)

theorem fetch_returns_body_iff_code_200_witness:
  "fst (CalendarAPI_get_day_calendar test_env (CalendarAPI_init test_env) 2025 1 1 empty_world)
     = Inr day_body
   \<and> fst (CalendarAPI_get_hour_calendar empty_address_env (CalendarAPI_init empty_address_env)
        2025 1 1 empty_world)
     = Inl (Wrapped (Fetch Hour) (Raised ''InvalidURL''))"
proof -
  have d: "dict_get day_body ''code'' = Inr (JInt 200)"
    by (simp add: dict_get_def day_body_def)
  from fetch_returns_body_iff_code_200 [OF test_env_ensure_ip, of empty_world 2025 1 1] d
  have 1: "fst (CalendarAPI_get_day_calendar test_env (CalendarAPI_init test_env) 2025 1 1
             empty_world) = Inr day_body"
    by (simp add: test_env_simps calendar_request_def)
  have "current_ip (CalendarAPI_init empty_address_env) = None"
    by (simp add: CalendarAPI_init_def)
  from fetch_returns_body_iff_code_200 [OF empty_address_env_ensure_ip, of _ empty_world 2025 1 1]
    this
  have 2: "fst (CalendarAPI_get_hour_calendar empty_address_env
             (CalendarAPI_init empty_address_env) 2025 1 1 empty_world)
           = Inl (Wrapped (Fetch Hour) (Raised ''InvalidURL''))"
    by (simp add: empty_address_env_simps calendar_request_def)
  from 1 2 show ?thesis by simp
qed

text \<open>
  Claim C8, as amended. \<^verbatim>\<open>ensure_ip\<close> returns at once, with the client and the trace of
  requests unchanged, when a non-empty address is stored, so it does after a resolution that
  stored a non-empty address, whatever the network does later; it queries the discovery
  endpoint exactly when the stored address is \<^verbatim>\<open>None\<close> or the empty string.
\<close>

theorem ensure_ip_memoizes:
  "(current_ip api = Some ip \<and> ip \<noteq> [] \<longrightarrow> ensure_ip e api w = (Inr (), api, w))
   \<and> (get_optimal_api_ip e api w = (Inr ip, api', w') \<and> ip \<noteq> [] \<longrightarrow>
        current_ip api' = Some ip \<and> ensure_ip e2 api' w2 = (Inr (), api', w2))
   \<and> (current_ip api = None \<or> current_ip api = Some [] \<longrightarrow>
        http_calls (snd (snd (ensure_ip e api w))) = http_calls w @ [discovery_request api])"
proof -
  have a: "current_ip api = Some ip \<and> ip \<noteq> [] \<longrightarrow> ensure_ip e api w = (Inr (), api, w)"
    by (simp add: ensure_ip_cached)
  have b: "get_optimal_api_ip e api w = (Inr ip, api', w') \<and> ip \<noteq> [] \<longrightarrow>
        current_ip api' = Some ip \<and> ensure_ip e2 api' w2 = (Inr (), api', w2)"
  proof (intro impI, elim conjE)
    assume g: "get_optimal_api_ip e api w = (Inr ip, api', w')" and ne: "ip \<noteq> []"
    from get_optimal_api_ip_cases [OF g] have c: "current_ip api' = Some ip" by simp
    with ne show "current_ip api' = Some ip \<and> ensure_ip e2 api' w2 = (Inr (), api', w2)"
      by (simp add: ensure_ip_cached)
  qed
  have c: "current_ip api = None \<or> current_ip api = Some [] \<longrightarrow>
        http_calls (snd (snd (ensure_ip e api w))) = http_calls w @ [discovery_request api]"
  proof
    assume n: "current_ip api = None \<or> current_ip api = Some []"
    obtain r0 a0 w0 where g: "get_optimal_api_ip e api w = (r0, a0, w0)"
      by (cases "get_optimal_api_ip e api w") auto
    from get_optimal_api_ip_cases [OF g] g n
    show "http_calls (snd (snd (ensure_ip e api w))) = http_calls w @ [discovery_request api]"
      by (auto simp: ensure_ip_def split: sum.splits)
  qed
  from a b c show ?thesis by blast
qed

theorem ensure_ip_memoizes_witness:
  "ensure_ip test_env ((CalendarAPI_init test_env)\<lparr>current_ip := Some ''10.0.0.1:8080''\<rparr>)
      empty_world
     = (Inr (), (CalendarAPI_init test_env)\<lparr>current_ip := Some ''10.0.0.1:8080''\<rparr>, empty_world)
   \<and> http_calls (snd (snd (ensure_ip test_env (CalendarAPI_init test_env) empty_world)))
     = [discovery_request (CalendarAPI_init test_env)]"
  using ensure_ip_memoizes [of "(CalendarAPI_init test_env)\<lparr>current_ip := Some ''10.0.0.1:8080''\<rparr>"
      "''10.0.0.1:8080''" test_env empty_world]
    ensure_ip_memoizes [of "CalendarAPI_init test_env" _ test_env empty_world]
  by (simp add: CalendarAPI_init_def empty_world_def)

text \<open>
  Claim C8 as stated fails: a resolution that succeeds with \<^verbatim>\<open>{"code": 200, "api": "http://"}\<close>
  stores the empty string, which is falsy, and the next \<^verbatim>\<open>ensure_ip\<close> on the same client
  queries the discovery endpoint again.
\<close>

theorem empty_address_is_resolved_again:
  "get_optimal_api_ip empty_address_env (CalendarAPI_init empty_address_env) empty_world
     = (Inr [], (CalendarAPI_init empty_address_env)\<lparr>current_ip := Some []\<rparr>,
        empty_world\<lparr>http_calls := [discovery_request (CalendarAPI_init empty_address_env)]\<rparr>)
   \<and> http_calls (snd (snd (ensure_ip empty_address_env
          ((CalendarAPI_init empty_address_env)\<lparr>current_ip := Some []\<rparr>)
          (empty_world\<lparr>http_calls := [discovery_request (CalendarAPI_init empty_address_env)]\<rparr>))))
     = [discovery_request (CalendarAPI_init empty_address_env),
        discovery_request (CalendarAPI_init empty_address_env)]"
  by (simp add: ensure_ip_def get_optimal_api_ip_def http_get_def extract_ip_def dict_get_def
      discovery_request_def empty_address_env_simps rstrip_def CalendarAPI_init_def
      empty_world_def)

section \<open>The orchestrator: forced refresh\<close>

lemma CalendarAPI_get_day_calendar_cases:
  assumes "CalendarAPI_get_day_calendar e api y m d w = (r, api', w')"
  shows "\<exists>pre. (\<forall>dim. fetches dim pre = [])
     \<and> (case r of
           Inl x \<Rightarrow>
             ((\<exists>c. x = Wrapped OptimalIp c) \<and> w' = w\<lparr>http_calls := http_calls w @ pre\<rparr>)
             \<or> ((\<exists>c. x = Wrapped (Fetch Day) c)
                 \<and> w' = w\<lparr>http_calls := http_calls w @ pre @ [calendar_request Day api' y m d]\<rparr>)
         | Inr v \<Rightarrow>
             w' = w\<lparr>http_calls := http_calls w @ pre @ [calendar_request Day api' y m d]\<rparr>
             \<and> respond e (length (http_calls w @ pre)) (calendar_request Day api' y m d) = Inr v
             \<and> dict_get v ''code'' = Inr (JInt 200))"
proof -
  obtain r0 a0 w0 where en: "ensure_ip e api w = (r0, a0, w0)"
    by (cases "ensure_ip e api w") auto
  from ensure_ip_cases [OF en] obtain pre where
    w0: "w0 = w\<lparr>http_calls := http_calls w @ pre\<rparr>" and
    pre: "\<forall>dim. fetches dim pre = []" and
    err: "\<forall>x. r0 = Inl x \<longrightarrow> (\<exists>c. x = Wrapped OptimalIp c)"
    by blast
  show ?thesis
  proof (cases r0)
    case (Inl x)
    with en assms err w0 have "r = Inl x" "w' = w\<lparr>http_calls := http_calls w @ pre\<rparr>"
      "\<exists>c. x = Wrapped OptimalIp c"
      by (auto simp: CalendarAPI_get_day_calendar_def)
    with pre show ?thesis by (intro exI [of _ pre]) simp
  next
    case (Inr u)
    obtain r1 w1 where f: "fetch_calendar e Day a0 y m d w0 = (r1, w1)"
      by (cases "fetch_calendar e Day a0 y m d w0") auto
    from Inr en f assms have eq: "r = r1" "api' = a0" "w' = w1"
      by (auto simp: CalendarAPI_get_day_calendar_def)
    from fetch_calendar_cases [OF f] w0 eq pre show ?thesis
      by (intro exI [of _ pre]) (auto split: sum.splits)
  qed
qed

lemma CalendarAPI_get_hour_calendar_cases:
  assumes "CalendarAPI_get_hour_calendar e api y m d w = (r, api', w')"
  shows "\<exists>pre. (\<forall>dim. fetches dim pre = [])
     \<and> (case r of
           Inl x \<Rightarrow>
             ((\<exists>c. x = Wrapped OptimalIp c) \<and> w' = w\<lparr>http_calls := http_calls w @ pre\<rparr>)
             \<or> ((\<exists>c. x = Wrapped (Fetch Hour) c)
                 \<and> w' = w\<lparr>http_calls := http_calls w @ pre @ [calendar_request Hour api' y m d]\<rparr>)
         | Inr v \<Rightarrow>
             w' = w\<lparr>http_calls := http_calls w @ pre @ [calendar_request Hour api' y m d]\<rparr>
             \<and> respond e (length (http_calls w @ pre)) (calendar_request Hour api' y m d) = Inr v
             \<and> dict_get v ''code'' = Inr (JInt 200))"
proof -
  obtain r0 a0 w0 where en: "ensure_ip e api w = (r0, a0, w0)"
    by (cases "ensure_ip e api w") auto
  from ensure_ip_cases [OF en] obtain pre where
    w0: "w0 = w\<lparr>http_calls := http_calls w @ pre\<rparr>" and
    pre: "\<forall>dim. fetches dim pre = []" and
    err: "\<forall>x. r0 = Inl x \<longrightarrow> (\<exists>c. x = Wrapped OptimalIp c)"
    by blast
  show ?thesis
  proof (cases r0)
    case (Inl x)
    with en assms err w0 have "r = Inl x" "w' = w\<lparr>http_calls := http_calls w @ pre\<rparr>"
      "\<exists>c. x = Wrapped OptimalIp c"
      by (auto simp: CalendarAPI_get_hour_calendar_def)
    with pre show ?thesis by (intro exI [of _ pre]) simp
  next
    case (Inr u)
    obtain r1 w1 where f: "fetch_calendar e Hour a0 y m d w0 = (r1, w1)"
      by (cases "fetch_calendar e Hour a0 y m d w0") auto
    from Inr en f assms have eq: "r = r1" "api' = a0" "w' = w1"
      by (auto simp: CalendarAPI_get_hour_calendar_def)
    from fetch_calendar_cases [OF f] w0 eq pre show ?thesis
      by (intro exI [of _ pre]) (auto split: sum.splits)
  qed
qed

lemma refill_day_cases:
  assumes "refill_day e api y m d w = (r, api', w')"
  shows "\<exists>pre. (\<forall>dim. fetches dim pre = [])
     \<and> hour_calendar w' = hour_calendar w \<and> db_instance w' = db_instance w
     \<and> (case r of
           Inl x \<Rightarrow>
             ((\<exists>c. x = Wrapped OptimalIp c) \<or> (\<exists>c. x = Wrapped (Fetch Day) c))
             \<and> db_calls w' = db_calls w \<and> day_calendar w' = day_calendar w
             \<and> (http_calls w' = http_calls w @ pre
                 \<or> http_calls w' = http_calls w @ pre @ [calendar_request Day api' y m d])
         | Inr v \<Rightarrow>
             http_calls w' = http_calls w @ pre @ [calendar_request Day api' y m d]
             \<and> respond e (length (http_calls w @ pre)) (calendar_request Day api' y m d) = Inr v
             \<and> dict_get v ''code'' = Inr (JInt 200)
             \<and> db_calls w' = db_calls w @ [SaveDay (date_str y m d) v]
             \<and> day_calendar w' =
                 (case upsert e (length (db_calls w)) (day_calendar w) (date_str y m d) v of
                    Inl x \<Rightarrow> day_calendar w | Inr t \<Rightarrow> t))"
proof -
  obtain r0 a0 w0 where g: "CalendarAPI_get_day_calendar e api y m d w = (r0, a0, w0)"
    by (cases "CalendarAPI_get_day_calendar e api y m d w") auto
  from CalendarAPI_get_day_calendar_cases [OF g] obtain pre where
    pre: "\<forall>dim. fetches dim pre = []" and
    c: "case r0 of
           Inl x \<Rightarrow>
             ((\<exists>c. x = Wrapped OptimalIp c) \<and> w0 = w\<lparr>http_calls := http_calls w @ pre\<rparr>)
             \<or> ((\<exists>c. x = Wrapped (Fetch Day) c)
                 \<and> w0 = w\<lparr>http_calls := http_calls w @ pre @ [calendar_request Day a0 y m d]\<rparr>)
         | Inr v \<Rightarrow>
             w0 = w\<lparr>http_calls := http_calls w @ pre @ [calendar_request Day a0 y m d]\<rparr>
             \<and> respond e (length (http_calls w @ pre)) (calendar_request Day a0 y m d) = Inr v
             \<and> dict_get v ''code'' = Inr (JInt 200)"
    by blast
  show ?thesis
  proof (cases r0)
    case (Inl x)
    with g assms have "r = Inl x" "api' = a0" "w' = w0" by (auto simp: refill_day_def)
    with c Inl pre show ?thesis by (intro exI [of _ pre]) auto
  next
    case (Inr v)
    with g assms have eq: "r = Inr v" "api' = a0"
      "w' = snd (SQLiteDB_save_day_calendar e (date_str y m d) v w0)"
      by (auto simp: refill_day_def split: prod.splits)
    from c Inr have w0: "w0 = w\<lparr>http_calls := http_calls w @ pre @ [calendar_request Day a0 y m d]\<rparr>"
      and rs: "respond e (length (http_calls w @ pre)) (calendar_request Day a0 y m d) = Inr v"
      and cd: "dict_get v ''code'' = Inr (JInt 200)"
      by simp_all
    from eq w0 rs cd pre show ?thesis
      by (intro exI [of _ pre])
        (simp add: SQLiteDB_save_day_calendar_def Let_def split: sum.splits)
  qed
qed

lemma refill_hour_cases:
  assumes "refill_hour e api y m d w = (r, api', w')"
  shows "\<exists>pre. (\<forall>dim. fetches dim pre = [])
     \<and> day_calendar w' = day_calendar w \<and> db_instance w' = db_instance w
     \<and> (case r of
           Inl x \<Rightarrow>
             ((\<exists>c. x = Wrapped OptimalIp c) \<or> (\<exists>c. x = Wrapped (Fetch Hour) c))
             \<and> db_calls w' = db_calls w \<and> hour_calendar w' = hour_calendar w
             \<and> (http_calls w' = http_calls w @ pre
                 \<or> http_calls w' = http_calls w @ pre @ [calendar_request Hour api' y m d])
         | Inr v \<Rightarrow>
             http_calls w' = http_calls w @ pre @ [calendar_request Hour api' y m d]
             \<and> respond e (length (http_calls w @ pre)) (calendar_request Hour api' y m d) = Inr v
             \<and> dict_get v ''code'' = Inr (JInt 200)
             \<and> db_calls w' = db_calls w @ [SaveHour (date_str y m d) v]
             \<and> hour_calendar w' =
                 (case upsert e (length (db_calls w)) (hour_calendar w) (date_str y m d) v of
                    Inl x \<Rightarrow> hour_calendar w | Inr t \<Rightarrow> t))"
proof -
  obtain r0 a0 w0 where g: "CalendarAPI_get_hour_calendar e api y m d w = (r0, a0, w0)"
    by (cases "CalendarAPI_get_hour_calendar e api y m d w") auto
  from CalendarAPI_get_hour_calendar_cases [OF g] obtain pre where
    pre: "\<forall>dim. fetches dim pre = []" and
    c: "case r0 of
           Inl x \<Rightarrow>
             ((\<exists>c. x = Wrapped OptimalIp c) \<and> w0 = w\<lparr>http_calls := http_calls w @ pre\<rparr>)
             \<or> ((\<exists>c. x = Wrapped (Fetch Hour) c)
                 \<and> w0 = w\<lparr>http_calls := http_calls w @ pre @ [calendar_request Hour a0 y m d]\<rparr>)
         | Inr v \<Rightarrow>
             w0 = w\<lparr>http_calls := http_calls w @ pre @ [calendar_request Hour a0 y m d]\<rparr>
             \<and> respond e (length (http_calls w @ pre)) (calendar_request Hour a0 y m d) = Inr v
             \<and> dict_get v ''code'' = Inr (JInt 200)"
    by blast
  show ?thesis
  proof (cases r0)
    case (Inl x)
    with g assms have "r = Inl x" "api' = a0" "w' = w0" by (auto simp: refill_hour_def)
    with c Inl pre show ?thesis by (intro exI [of _ pre]) auto
  next
    case (Inr v)
    with g assms have eq: "r = Inr v" "api' = a0"
      "w' = snd (SQLiteDB_save_hour_calendar e (date_str y m d) v w0)"
      by (auto simp: refill_hour_def split: prod.splits)
    from c Inr have w0: "w0 = w\<lparr>http_calls := http_calls w @ pre @ [calendar_request Hour a0 y m d]\<rparr>"
      and rs: "respond e (length (http_calls w @ pre)) (calendar_request Hour a0 y m d) = Inr v"
      and cd: "dict_get v ''code'' = Inr (JInt 200)"
      by simp_all
    from eq w0 rs cd pre show ?thesis
      by (intro exI [of _ pre])
        (simp add: SQLiteDB_save_hour_calendar_def Let_def split: sum.splits)
  qed
qed

lemma get_db_cases:
  assumes "get_db e w = (r, w0)"
  shows "day_calendar w0 = day_calendar w \<and> hour_calendar w0 = hour_calendar w
         \<and> db_calls w0 = db_calls w \<and> http_calls w0 = http_calls w
         \<and> (case r of Inl x \<Rightarrow> init_fault e = Some x \<and> w0 = w | Inr u \<Rightarrow> db_instance w0)"
  using assms by (auto simp: get_db_def split: if_splits option.splits)

lemma upsert_row:
  assumes "db_fault e n = None"
  shows "\<exists>t r. upsert e n tbl date v = Inr t \<and> t date = Some r \<and> data r = Some (dumps e v)
           \<and> (\<forall>d'. d' \<noteq> date \<longrightarrow> t d' = tbl d')"
  using assms by (simp add: upsert_def Let_def split: option.splits)

lemma upsert_commits:
  assumes "db_fault e n = None"
  shows "upsert e n tbl date v =
           Inr (tbl(date \<mapsto>
             (case tbl date of
                None \<Rightarrow> \<lparr>data = Some (dumps e v), create_time = now_at e n,
                          update_time = now_at e n\<rparr>
              | Some r \<Rightarrow> r\<lparr>data := Some (dumps e v), update_time := now_at e n\<rparr>)))"
  using assms by (simp add: upsert_def Let_def)

lemma get_day_stored:
  assumes "db_fault e (length (db_calls w)) = None" "codec_ok e v"
    "day_calendar w date = Some r" "data r = Some (dumps e v)"
  shows "fst (SQLiteDB_get_day_calendar e date w) = v"
  using assms by (simp add: SQLiteDB_get_day_calendar_def select_data_def codec_ok_def Let_def)

lemma get_hour_stored:
  assumes "db_fault e (length (db_calls w)) = None" "codec_ok e v"
    "hour_calendar w date = Some r" "data r = Some (dumps e v)"
  shows "fst (SQLiteDB_get_hour_calendar e date w) = v"
  using assms by (simp add: SQLiteDB_get_hour_calendar_def select_data_def codec_ok_def Let_def)

lemma answeredI:
  assumes "http_calls w' = http_calls w @ pre @ rq # post"
    "respond e (length (http_calls w @ pre)) rq = Inr v"
  shows "answered e w w' rq v"
  unfolding answered_def
proof (rule bexI [of _ "length (http_calls w @ pre)"])
  show "http_calls w' ! length (http_calls w @ pre) = rq
        \<and> respond e (length (http_calls w @ pre)) rq = Inr v"
    using assms by (simp add: nth_append)
  show "length (http_calls w @ pre) \<in> {length (http_calls w)..<length (http_calls w')}"
    using assms by simp
qed

lemma new_http_append: "http_calls w' = http_calls w @ calls \<Longrightarrow> new_http w w' = calls"
  by (simp add: new_http_def)

text \<open>
  Claim C4. A call with \<^verbatim>\<open>force_refresh\<close> that returns has made no store read: its store
  calls are the save of the day record, then the save of the hour record. It has fetched each
  dimension exactly once, returns the pair of the two bodies the network answered with, and,
  when the store's transactions do not fail and the codec round-trips the two bodies, a read
  of either table for that date afterwards returns the fetched body, whatever the tables held
  before.
\<close>

theorem forced_refresh_refetches_and_overwrites:
  assumes ret: "get_calander_info e year month day True w = (Inr s, w')"
  shows "\<exists>day_info hour_info rq_day rq_hour.
      s = calendar_data e day_info hour_info
    \<and> db_calls w' = db_calls w @ [SaveDay (date_str year month day) day_info,
                                    SaveHour (date_str year month day) hour_info]
    \<and> fetches Day (new_http w w') = [rq_day] \<and> fetches Hour (new_http w w') = [rq_hour]
    \<and> answered e w w' rq_day day_info \<and> answered e w w' rq_hour hour_info
    \<and> ((\<forall>n. db_fault e n = None) \<and> codec_ok e day_info \<and> codec_ok e hour_info \<longrightarrow>
         fst (SQLiteDB_get_day_calendar e (date_str year month day) w') = day_info
       \<and> fst (SQLiteDB_get_hour_calendar e (date_str year month day) w') = hour_info)"
proof -
  let ?date = "date_str year month day"
  from ret obtain u w0 dv api1 w1 hv api2 where
    g: "get_db e w = (Inr u, w0)" and
    rd: "refill_day e (CalendarAPI_init e) year month day w0 = (Inr dv, api1, w1)" and
    rh: "refill_hour e api1 year month day w1 = (Inr hv, api2, w')" and
    s: "s = calendar_data e dv hv"
    by (auto simp: get_calander_info_def calander_body_def split: prod.splits sum.splits)
  from get_db_cases [OF g] have
    w0: "day_calendar w0 = day_calendar w" "hour_calendar w0 = hour_calendar w"
      "db_calls w0 = db_calls w" "http_calls w0 = http_calls w"
    by simp_all
  from refill_day_cases [OF rd] obtain pre1 where
    pre1: "\<forall>dim. fetches dim pre1 = []" and
    h1: "http_calls w1 = http_calls w0 @ pre1 @ [calendar_request Day api1 year month day]" and
    a1: "respond e (length (http_calls w0 @ pre1)) (calendar_request Day api1 year month day) = Inr dv" and
    c1: "db_calls w1 = db_calls w0 @ [SaveDay ?date dv]" and
    t1: "day_calendar w1 =
           (case upsert e (length (db_calls w0)) (day_calendar w0) ?date dv of
              Inl x \<Rightarrow> day_calendar w0 | Inr t \<Rightarrow> t)"
    by auto
  from refill_hour_cases [OF rh] obtain pre2 where
    pre2: "\<forall>dim. fetches dim pre2 = []" and
    d2: "day_calendar w' = day_calendar w1" and
    h2: "http_calls w' = http_calls w1 @ pre2 @ [calendar_request Hour api2 year month day]" and
    a2: "respond e (length (http_calls w1 @ pre2)) (calendar_request Hour api2 year month day) = Inr hv" and
    c2: "db_calls w' = db_calls w1 @ [SaveHour ?date hv]" and
    t2: "hour_calendar w' =
           (case upsert e (length (db_calls w1)) (hour_calendar w1) ?date hv of
              Inl x \<Rightarrow> hour_calendar w1 | Inr t \<Rightarrow> t)"
    by auto
  let ?rd = "calendar_request Day api1 year month day"
  let ?rh = "calendar_request Hour api2 year month day"
  have calls: "http_calls w' = http_calls w @ pre1 @ ?rd # pre2 @ [?rh]"
    using h1 h2 w0 by simp
  have new: "new_http w w' = pre1 @ ?rd # pre2 @ [?rh]"
    using calls by (rule new_http_append)
  have fd: "fetches Day (new_http w w') = [?rd]" and fh: "fetches Hour (new_http w w') = [?rh]"
    using pre1 pre2 fetches_simps(2) [of _ "[?rd]" "pre2 @ [?rh]"] unfolding new
    by (simp_all add: fetches_def calendar_request_def)
  have ad: "answered e w w' ?rd dv"
    using calls a1 w0 by (intro answeredI [where pre = pre1 and post = "pre2 @ [?rh]"]) simp_all
  have ah: "answered e w w' ?rh hv"
    using calls a2 h1 w0
    by (intro answeredI [where pre = "pre1 @ ?rd # pre2" and post = "[]"]) simp_all
  have rb: "fst (SQLiteDB_get_day_calendar e ?date w') = dv
       \<and> fst (SQLiteDB_get_hour_calendar e ?date w') = hv"
    if nf: "\<forall>n. db_fault e n = None" and okd: "codec_ok e dv" and okh: "codec_ok e hv"
  proof -
    from upsert_row [of e "length (db_calls w0)" "day_calendar w0" ?date dv] nf t1 d2
    obtain r where "day_calendar w' ?date = Some r" "data r = Some (dumps e dv)" by auto
    with nf okd have 1: "fst (SQLiteDB_get_day_calendar e ?date w') = dv"
      by (intro get_day_stored) auto
    from upsert_row [of e "length (db_calls w1)" "hour_calendar w1" ?date hv] nf t2
    obtain r' where "hour_calendar w' ?date = Some r'" "data r' = Some (dumps e hv)" by auto
    with nf okh have 2: "fst (SQLiteDB_get_hour_calendar e ?date w') = hv"
      by (intro get_hour_stored) auto
    from 1 2 show ?thesis by simp
  qed
  have dc: "db_calls w' = db_calls w @ [SaveDay ?date dv, SaveHour ?date hv]"
    using c1 c2 w0 by simp
  from s dc fd fh ad ah rb show ?thesis by blast
qed

lemma date_2025: "date_str 2025 1 1 = ''2025-01-01''"
  by (simp add: date_str_def format_02d_def str_int_def str_nat.simps)

lemma body_simps:
  "dict_get day_body ''code'' = Inr (JInt 200)"
  "dict_get hour_body ''code'' = Inr (JInt 200)"
  "truthy day_body" "truthy hour_body"
  "codec_ok test_env day_body" "codec_ok test_env hour_body"
  "dumps_indent test_env (JObj [(''day_info'', day_body), (''hour_info'', hour_body)]) = pair_text"
  by (simp_all add: dict_get_def day_body_def hour_body_def codec_ok_def test_env_def
      day_text_def hour_text_def)

lemmas orchestrator_defs =
  get_calander_info_def calander_body_def get_db_def refill_day_def refill_hour_def
  CalendarAPI_get_day_calendar_def CalendarAPI_get_hour_calendar_def fetch_calendar_def
  http_get_def SQLiteDB_save_day_calendar_def SQLiteDB_save_hour_calendar_def
  SQLiteDB_get_day_calendar_def SQLiteDB_get_hour_calendar_def select_data_def upsert_def
  calendar_data_def calendar_request_def Let_def

lemma forced_eval:
  "fst (get_calander_info test_env 2025 1 1 True stale_world) = Inr pair_text"
  "db_calls (snd (get_calander_info test_env 2025 1 1 True stale_world))
     = [SaveDay ''2025-01-01'' day_body, SaveHour ''2025-01-01'' hour_body]"
  by (simp_all add: orchestrator_defs test_env_ensure_ip ensure_ip_cached test_env_simps
      body_simps date_2025 stale_world_def empty_world_def)

theorem forced_refresh_refetches_and_overwrites_witness:
  "fst (get_calander_info test_env 2025 1 1 True stale_world) = Inr pair_text
   \<and> fst (SQLiteDB_get_day_calendar test_env ''2025-01-01'' stale_world) = hour_body
   \<and> fst (SQLiteDB_get_day_calendar test_env ''2025-01-01''
            (snd (get_calander_info test_env 2025 1 1 True stale_world))) = day_body
   \<and> fst (SQLiteDB_get_hour_calendar test_env ''2025-01-01''
            (snd (get_calander_info test_env 2025 1 1 True stale_world))) = hour_body"
proof -
  let ?w' = "snd (get_calander_info test_env 2025 1 1 True stale_world)"
  have ret: "get_calander_info test_env 2025 1 1 True stale_world = (Inr pair_text, ?w')"
    using forced_eval(1) by (simp add: prod_eq_iff)
  from forced_refresh_refetches_and_overwrites [OF ret] obtain day_info hour_info where
    c: "db_calls ?w' = db_calls stale_world @ [SaveDay (date_str 2025 1 1) day_info,
                                               SaveHour (date_str 2025 1 1) hour_info]" and
    r: "(\<forall>n. db_fault test_env n = None) \<and> codec_ok test_env day_info
          \<and> codec_ok test_env hour_info \<longrightarrow>
        fst (SQLiteDB_get_day_calendar test_env (date_str 2025 1 1) ?w') = day_info
        \<and> fst (SQLiteDB_get_hour_calendar test_env (date_str 2025 1 1) ?w') = hour_info"
    by blast
  from c forced_eval(2) have "day_info = day_body" "hour_info = hour_body" by simp_all
  with r have "fst (SQLiteDB_get_day_calendar test_env ''2025-01-01'' ?w') = day_body
        \<and> fst (SQLiteDB_get_hour_calendar test_env ''2025-01-01'' ?w') = hour_body"
    by (simp add: test_env_simps body_simps date_2025)
  moreover have "fst (SQLiteDB_get_day_calendar test_env ''2025-01-01'' stale_world) = hour_body"
    by (simp add: SQLiteDB_get_day_calendar_def select_data_def Let_def test_env_simps
        stale_world_def empty_world_def day_text_neq)
  ultimately show ?thesis using forced_eval(1) by simp
qed

section \<open>The orchestrator: cache-aside reads\<close>

lemma reads_world:
  "snd (SQLiteDB_get_hour_calendar e date (snd (SQLiteDB_get_day_calendar e date w)))
     = w\<lparr>db_calls := db_calls w @ [GetDay date, GetHour date]\<rparr>"
  by (simp add: get_day_world get_hour_world)

text \<open>
  Without \<^verbatim>\<open>force_refresh\<close>, the early return on a full hit is what the two guarded refills
  compute when neither guard holds, so the body is one sequence: open the store, read both
  rows, then for each dimension keep the cached record or refill it.
\<close>

lemma not_forced_body:
  "calander_body e y m d False w =
     (case get_db e w of
        (Inl x, w0) \<Rightarrow> (Inl x, w0)
      | (Inr u, w0) \<Rightarrow>
          (case (if \<not> truthy (cached_day e y m d w)
                 then refill_day e (CalendarAPI_init e) y m d
                        (w0\<lparr>db_calls := db_calls w0 @ [GetDay (date_str y m d), GetHour (date_str y m d)]\<rparr>)
                 else (Inr (cached_day e y m d w), CalendarAPI_init e,
                        w0\<lparr>db_calls := db_calls w0 @ [GetDay (date_str y m d), GetHour (date_str y m d)]\<rparr>)) of
             (Inl x, api1, w3) \<Rightarrow> (Inl x, w3)
           | (Inr dv, api1, w3) \<Rightarrow>
               (case (if \<not> truthy (cached_hour e y m d w)
                      then refill_hour e api1 y m d w3
                      else (Inr (cached_hour e y m d w), api1, w3)) of
                  (Inl x, api2, w4) \<Rightarrow> (Inl x, w4)
                | (Inr hv, api2, w4) \<Rightarrow> (Inr (calendar_data e dv hv), w4))))"
proof (cases "get_db e w")
  case (Pair r w0)
  show ?thesis
  proof (cases r)
    case (Inl x)
    with Pair show ?thesis by (simp add: calander_body_def)
  next
    case (Inr u)
    with Pair have w0: "snd (get_db e w) = w0" by simp
    obtain cd w1 where gd: "SQLiteDB_get_day_calendar e (date_str y m d) w0 = (cd, w1)"
      by (cases "SQLiteDB_get_day_calendar e (date_str y m d) w0") auto
    obtain ch w2 where gh: "SQLiteDB_get_hour_calendar e (date_str y m d) w1 = (ch, w2)"
      by (cases "SQLiteDB_get_hour_calendar e (date_str y m d) w1") auto
    have cd: "cached_day e y m d w = cd" and ch: "cached_hour e y m d w = ch"
      using gd gh w0 by (simp_all add: cached_day_def cached_hour_def)
    have w2: "w2 = w0\<lparr>db_calls := db_calls w0 @ [GetDay (date_str y m d), GetHour (date_str y m d)]\<rparr>"
      using reads_world [of e "date_str y m d" w0] gd gh by simp
    show ?thesis
      unfolding cd ch
      using Pair Inr gd gh w2 by (simp add: calander_body_def)
  qed
qed

lemma day_step:
  assumes "(if \<not> truthy cd then refill_day e api y m d w2 else (Inr cd, api, w2))
             = (Inr dv, api1, w3)"
  shows "\<exists>calls saves.
      http_calls w3 = http_calls w2 @ calls \<and> db_calls w3 = db_calls w2 @ saves
    \<and> hour_calendar w3 = hour_calendar w2 \<and> db_instance w3 = db_instance w2
    \<and> (if truthy cd then dv = cd \<and> calls = [] \<and> saves = [] \<and> day_calendar w3 = day_calendar w2
        else (\<exists>pre rq. calls = pre @ [rq] \<and> (\<forall>dim. fetches dim pre = [])
                \<and> endpoint rq = Calendar Day
                \<and> respond e (length (http_calls w2 @ pre)) rq = Inr dv)
           \<and> dict_get dv ''code'' = Inr (JInt 200)
           \<and> saves = [SaveDay (date_str y m d) dv]
           \<and> day_calendar w3 =
                (case upsert e (length (db_calls w2)) (day_calendar w2) (date_str y m d) dv of
                   Inl x \<Rightarrow> day_calendar w2 | Inr t \<Rightarrow> t))"
proof (cases "truthy cd")
  case True
  with assms have "dv = cd" "w3 = w2" by simp_all
  with True show ?thesis
    by (intro exI [of _ "[]"]) simp
next
  case False
  with assms have rd: "refill_day e api y m d w2 = (Inr dv, api1, w3)" by simp
  from refill_day_cases [OF rd] obtain pre where
    pre: "\<forall>dim. fetches dim pre = []" and
    f: "hour_calendar w3 = hour_calendar w2" "db_instance w3 = db_instance w2" and
    h: "http_calls w3 = http_calls w2 @ pre @ [calendar_request Day api1 y m d]" and
    a: "respond e (length (http_calls w2 @ pre)) (calendar_request Day api1 y m d) = Inr dv" and
    c: "dict_get dv ''code'' = Inr (JInt 200)" and
    s: "db_calls w3 = db_calls w2 @ [SaveDay (date_str y m d) dv]" and
    t: "day_calendar w3 =
          (case upsert e (length (db_calls w2)) (day_calendar w2) (date_str y m d) dv of
             Inl x \<Rightarrow> day_calendar w2 | Inr t \<Rightarrow> t)"
    by auto
  have ep: "endpoint (calendar_request Day api1 y m d) = Calendar Day"
    by (simp add: calendar_request_def)
  have "\<exists>pre' rq. pre @ [calendar_request Day api1 y m d] = pre' @ [rq]
          \<and> (\<forall>dim. fetches dim pre' = []) \<and> endpoint rq = Calendar Day
          \<and> respond e (length (http_calls w2 @ pre')) rq = Inr dv"
    using pre a ep by blast
  with False f h c s t show ?thesis
    by (intro exI [of _ "pre @ [calendar_request Day api1 y m d]"]
        exI [of _ "[SaveDay (date_str y m d) dv]"]) simp
qed

lemma hour_step:
  assumes "(if \<not> truthy ch then refill_hour e api y m d w2 else (Inr ch, api, w2))
             = (Inr hv, api1, w3)"
  shows "\<exists>calls saves.
      http_calls w3 = http_calls w2 @ calls \<and> db_calls w3 = db_calls w2 @ saves
    \<and> day_calendar w3 = day_calendar w2 \<and> db_instance w3 = db_instance w2
    \<and> (if truthy ch then hv = ch \<and> calls = [] \<and> saves = [] \<and> hour_calendar w3 = hour_calendar w2
        else (\<exists>pre rq. calls = pre @ [rq] \<and> (\<forall>dim. fetches dim pre = [])
                \<and> endpoint rq = Calendar Hour
                \<and> respond e (length (http_calls w2 @ pre)) rq = Inr hv)
           \<and> dict_get hv ''code'' = Inr (JInt 200)
           \<and> saves = [SaveHour (date_str y m d) hv]
           \<and> hour_calendar w3 =
                (case upsert e (length (db_calls w2)) (hour_calendar w2) (date_str y m d) hv of
                   Inl x \<Rightarrow> hour_calendar w2 | Inr t \<Rightarrow> t))"
proof (cases "truthy ch")
  case True
  with assms have "hv = ch" "w3 = w2" by simp_all
  with True show ?thesis
    by (intro exI [of _ "[]"]) simp
next
  case False
  with assms have rd: "refill_hour e api y m d w2 = (Inr hv, api1, w3)" by simp
  from refill_hour_cases [OF rd] obtain pre where
    pre: "\<forall>dim. fetches dim pre = []" and
    f: "day_calendar w3 = day_calendar w2" "db_instance w3 = db_instance w2" and
    h: "http_calls w3 = http_calls w2 @ pre @ [calendar_request Hour api1 y m d]" and
    a: "respond e (length (http_calls w2 @ pre)) (calendar_request Hour api1 y m d) = Inr hv" and
    c: "dict_get hv ''code'' = Inr (JInt 200)" and
    s: "db_calls w3 = db_calls w2 @ [SaveHour (date_str y m d) hv]" and
    t: "hour_calendar w3 =
          (case upsert e (length (db_calls w2)) (hour_calendar w2) (date_str y m d) hv of
             Inl x \<Rightarrow> hour_calendar w2 | Inr t \<Rightarrow> t)"
    by auto
  have ep: "endpoint (calendar_request Hour api1 y m d) = Calendar Hour"
    by (simp add: calendar_request_def)
  have "\<exists>pre' rq. pre @ [calendar_request Hour api1 y m d] = pre' @ [rq]
          \<and> (\<forall>dim. fetches dim pre' = []) \<and> endpoint rq = Calendar Hour
          \<and> respond e (length (http_calls w2 @ pre')) rq = Inr hv"
    using pre a ep by blast
  with False f h c s t show ?thesis
    by (intro exI [of _ "pre @ [calendar_request Hour api1 y m d]"]
        exI [of _ "[SaveHour (date_str y m d) hv]"]) simp
qed

lemma not_forced_returns:
  assumes ret: "get_calander_info e y m d False w = (Inr s, w')"
  obtains dv hv calls_d calls_h saves_d saves_h where
    "s = calendar_data e dv hv" and "db_instance w'" and
    "http_calls w' = http_calls w @ calls_d @ calls_h" and
    "db_calls w' = db_calls w @ [GetDay (date_str y m d), GetHour (date_str y m d)]
                     @ saves_d @ saves_h" and
    "if truthy (cached_day e y m d w)
     then dv = cached_day e y m d w \<and> calls_d = [] \<and> saves_d = []
          \<and> day_calendar w' = day_calendar w
     else (\<exists>pre rq. calls_d = pre @ [rq] \<and> (\<forall>dim. fetches dim pre = [])
             \<and> endpoint rq = Calendar Day
             \<and> respond e (length (http_calls w @ pre)) rq = Inr dv)
        \<and> dict_get dv ''code'' = Inr (JInt 200)
        \<and> saves_d = [SaveDay (date_str y m d) dv]
        \<and> day_calendar w' =
             (case upsert e (length (db_calls w) + 2) (day_calendar w) (date_str y m d) dv of
                Inl x \<Rightarrow> day_calendar w | Inr t \<Rightarrow> t)" and
    "if truthy (cached_hour e y m d w)
     then hv = cached_hour e y m d w \<and> calls_h = [] \<and> saves_h = []
          \<and> hour_calendar w' = hour_calendar w
     else (\<exists>pre rq. calls_h = pre @ [rq] \<and> (\<forall>dim. fetches dim pre = [])
             \<and> endpoint rq = Calendar Hour
             \<and> respond e (length (http_calls w @ calls_d @ pre)) rq = Inr hv)
        \<and> dict_get hv ''code'' = Inr (JInt 200)
        \<and> saves_h = [SaveHour (date_str y m d) hv]
        \<and> hour_calendar w' =
             (case upsert e (length (db_calls w) + 2 + length saves_d) (hour_calendar w)
                     (date_str y m d) hv of
                Inl x \<Rightarrow> hour_calendar w | Inr t \<Rightarrow> t)"
proof -
  let ?date = "date_str y m d"
  from ret have body: "calander_body e y m d False w = (Inr s, w')"
    by (auto simp: get_calander_info_def split: prod.splits sum.splits)
  obtain r0 w0 where g0: "get_db e w = (r0, w0)" by (cases "get_db e w") auto
  let ?w2 = "w0\<lparr>db_calls := db_calls w0 @ [GetDay ?date, GetHour ?date]\<rparr>"
  obtain rD aD wD where D0:
    "(if \<not> truthy (cached_day e y m d w)
      then refill_day e (CalendarAPI_init e) y m d ?w2
      else (Inr (cached_day e y m d w), CalendarAPI_init e, ?w2)) = (rD, aD, wD)"
    using prod_cases3 by blast
  obtain rH aH wH where H0:
    "(if \<not> truthy (cached_hour e y m d w)
      then refill_hour e aD y m d wD
      else (Inr (cached_hour e y m d w), aD, wD)) = (rH, aH, wH)"
    using prod_cases3 by blast
  from body have "r0 = Inr () \<and> rD = Inr (projr rD) \<and> rH = Inr (projr rH)
      \<and> s = calendar_data e (projr rD) (projr rH) \<and> w' = wH"
    unfolding not_forced_body g0 using D0 H0
    by (cases r0; cases rD; cases rH) simp_all
  then obtain dv hv where
    g: "get_db e w = (Inr (), w0)" and
    D: "(if \<not> truthy (cached_day e y m d w)
         then refill_day e (CalendarAPI_init e) y m d ?w2
         else (Inr (cached_day e y m d w), CalendarAPI_init e, ?w2)) = (Inr dv, aD, wD)" and
    H: "(if \<not> truthy (cached_hour e y m d w)
         then refill_hour e aD y m d wD
         else (Inr (cached_hour e y m d w), aD, wD)) = (Inr hv, aH, w')" and
    s: "s = calendar_data e dv hv"
    using g0 D0 H0 by metis
  from get_db_cases [OF g] have
    w0: "day_calendar w0 = day_calendar w" "hour_calendar w0 = hour_calendar w"
      "db_calls w0 = db_calls w" "http_calls w0 = http_calls w" "db_instance w0"
    by simp_all
  from day_step [OF D] obtain calls_d saves_d where
    d1: "http_calls wD = http_calls ?w2 @ calls_d" "db_calls wD = db_calls ?w2 @ saves_d"
      "hour_calendar wD = hour_calendar ?w2" "db_instance wD = db_instance ?w2" and
    d2: "if truthy (cached_day e y m d w)
         then dv = cached_day e y m d w \<and> calls_d = [] \<and> saves_d = []
              \<and> day_calendar wD = day_calendar ?w2
         else (\<exists>pre rq. calls_d = pre @ [rq] \<and> (\<forall>dim. fetches dim pre = [])
                 \<and> endpoint rq = Calendar Day
                 \<and> respond e (length (http_calls ?w2 @ pre)) rq = Inr dv)
            \<and> dict_get dv ''code'' = Inr (JInt 200)
            \<and> saves_d = [SaveDay ?date dv]
            \<and> day_calendar wD =
                 (case upsert e (length (db_calls ?w2)) (day_calendar ?w2) ?date dv of
                    Inl x \<Rightarrow> day_calendar ?w2 | Inr t \<Rightarrow> t)"
    by blast
  from hour_step [OF H] obtain calls_h saves_h where
    h1: "http_calls w' = http_calls wD @ calls_h" "db_calls w' = db_calls wD @ saves_h"
      "day_calendar w' = day_calendar wD" "db_instance w' = db_instance wD" and
    h2: "if truthy (cached_hour e y m d w)
         then hv = cached_hour e y m d w \<and> calls_h = [] \<and> saves_h = []
              \<and> hour_calendar w' = hour_calendar wD
         else (\<exists>pre rq. calls_h = pre @ [rq] \<and> (\<forall>dim. fetches dim pre = [])
                 \<and> endpoint rq = Calendar Hour
                 \<and> respond e (length (http_calls wD @ pre)) rq = Inr hv)
            \<and> dict_get hv ''code'' = Inr (JInt 200)
            \<and> saves_h = [SaveHour ?date hv]
            \<and> hour_calendar w' =
                 (case upsert e (length (db_calls wD)) (hour_calendar wD) ?date hv of
                    Inl x \<Rightarrow> hour_calendar wD | Inr t \<Rightarrow> t)"
    by blast
  show thesis
  proof (rule that [of dv hv calls_d calls_h saves_d saves_h])
    show "s = calendar_data e dv hv" by (rule s)
    show "db_instance w'" using h1 d1 w0 by simp
    show "http_calls w' = http_calls w @ calls_d @ calls_h" using h1 d1 w0 by simp
    show "db_calls w' = db_calls w @ [GetDay ?date, GetHour ?date] @ saves_d @ saves_h"
      using h1 d1 w0 by simp
    show "if truthy (cached_day e y m d w)
     then dv = cached_day e y m d w \<and> calls_d = [] \<and> saves_d = []
          \<and> day_calendar w' = day_calendar w
     else (\<exists>pre rq. calls_d = pre @ [rq] \<and> (\<forall>dim. fetches dim pre = [])
             \<and> endpoint rq = Calendar Day
             \<and> respond e (length (http_calls w @ pre)) rq = Inr dv)
        \<and> dict_get dv ''code'' = Inr (JInt 200)
        \<and> saves_d = [SaveDay ?date dv]
        \<and> day_calendar w' =
             (case upsert e (length (db_calls w) + 2) (day_calendar w) ?date dv of
                Inl x \<Rightarrow> day_calendar w | Inr t \<Rightarrow> t)"
      using d2 h1 w0 by (simp split: if_splits cong: sum.case_cong)
    show "if truthy (cached_hour e y m d w)
     then hv = cached_hour e y m d w \<and> calls_h = [] \<and> saves_h = []
          \<and> hour_calendar w' = hour_calendar w
     else (\<exists>pre rq. calls_h = pre @ [rq] \<and> (\<forall>dim. fetches dim pre = [])
             \<and> endpoint rq = Calendar Hour
             \<and> respond e (length (http_calls w @ calls_d @ pre)) rq = Inr hv)
        \<and> dict_get hv ''code'' = Inr (JInt 200)
        \<and> saves_h = [SaveHour ?date hv]
        \<and> hour_calendar w' =
             (case upsert e (length (db_calls w) + 2 + length saves_d) (hour_calendar w)
                     ?date hv of
                Inl x \<Rightarrow> hour_calendar w | Inr t \<Rightarrow> t)"
      using h2 d1 w0 by (simp split: if_splits cong: sum.case_cong)
  qed
qed

lemma fetches_single:
  "fetches dim [rq] = (if endpoint rq = Calendar dim then [rq] else [])"
  by (simp add: fetches_def)

lemma get_day_table_only:
  assumes "\<forall>n. db_fault e n = None" "day_calendar wa = day_calendar wb"
  shows "fst (SQLiteDB_get_day_calendar e date wa) = fst (SQLiteDB_get_day_calendar e date wb)"
  using assms
  by (simp add: SQLiteDB_get_day_calendar_def select_data_def Let_def
      split: sum.splits option.splits)

lemma get_hour_table_only:
  assumes "\<forall>n. db_fault e n = None" "hour_calendar wa = hour_calendar wb"
  shows "fst (SQLiteDB_get_hour_calendar e date wa) = fst (SQLiteDB_get_hour_calendar e date wb)"
  using assms
  by (simp add: SQLiteDB_get_hour_calendar_def select_data_def Let_def
      split: sum.splits option.splits)

lemma get_db_tables:
  "day_calendar (snd (get_db e w)) = day_calendar w"
  "hour_calendar (snd (get_db e w)) = hour_calendar w"
  by (simp_all add: get_db_def split: option.splits)

lemma cached_day_table_only:
  assumes "\<forall>n. db_fault e n = None" "day_calendar wa = day_calendar wb"
  shows "cached_day e y m d wa = cached_day e y m d wb"
  unfolding cached_day_def
  using assms by (intro get_day_table_only) (simp_all add: get_db_tables)

lemma cached_hour_table_only:
  assumes "\<forall>n. db_fault e n = None" "hour_calendar wa = hour_calendar wb"
  shows "cached_hour e y m d wa = cached_hour e y m d wb"
  unfolding cached_hour_def
  using assms by (intro get_hour_table_only) (simp_all add: get_db_tables get_day_world)

lemma cached_day_stored:
  assumes nf: "\<forall>n. db_fault e n = None" and ok: "codec_ok e v"
    and t: "day_calendar w1 = (case upsert e n (day_calendar w) (date_str y m d) v of
                                 Inl x \<Rightarrow> day_calendar w | Inr t \<Rightarrow> t)"
  shows "cached_day e y m d w1 = v"
proof -
  from upsert_row [of e n "day_calendar w" "date_str y m d" v] nf t
  obtain r where "day_calendar w1 (date_str y m d) = Some r" "data r = Some (dumps e v)"
    by auto
  then have "day_calendar (snd (get_db e w1)) (date_str y m d) = Some r"
    by (simp add: get_db_tables)
  with nf ok \<open>data r = Some (dumps e v)\<close> show ?thesis
    unfolding cached_day_def by (intro get_day_stored) auto
qed

lemma cached_hour_stored:
  assumes nf: "\<forall>n. db_fault e n = None" and ok: "codec_ok e v"
    and t: "hour_calendar w1 = (case upsert e n (hour_calendar w) (date_str y m d) v of
                                  Inl x \<Rightarrow> hour_calendar w | Inr t \<Rightarrow> t)"
  shows "cached_hour e y m d w1 = v"
proof -
  from upsert_row [of e n "hour_calendar w" "date_str y m d" v] nf t
  obtain r where "hour_calendar w1 (date_str y m d) = Some r" "data r = Some (dumps e v)"
    by auto
  then have "hour_calendar (snd (SQLiteDB_get_day_calendar e (date_str y m d)
               (snd (get_db e w1)))) (date_str y m d) = Some r"
    by (simp add: get_db_tables get_day_world)
  with nf ok \<open>data r = Some (dumps e v)\<close> show ?thesis
    unfolding cached_hour_def by (intro get_hour_stored) auto
qed

lemma full_hit:
  assumes "db_instance w" "truthy (cached_day e y m d w)" "truthy (cached_hour e y m d w)"
  shows "get_calander_info e y m d False w
           = (Inr (calendar_data e (cached_day e y m d w) (cached_hour e y m d w)),
              w\<lparr>db_calls := db_calls w @ [GetDay (date_str y m d), GetHour (date_str y m d)]\<rparr>)"
proof -
  from assms(1) have g: "get_db e w = (Inr (), w)" by (simp add: get_db_def)
  show ?thesis
    unfolding get_calander_info_def not_forced_body g using assms by simp
qed

text \<open>
  Claim C5. When the store's transactions do not fail and the codec round-trips the fetched
  bodies, a call without \<^verbatim>\<open>force_refresh\<close> that returns is followed by a pure cache hit: the
  same call made again returns the identical string and makes no HTTP call, so the two calls
  together fetch each dimension at most once.
\<close>

theorem repeated_call_is_cache_hit:
  assumes first: "get_calander_info e year month day False w = (Inr s, w1)"
    and nofault: "\<forall>n. db_fault e n = None"
    and codec: "\<forall>n rq v. endpoint rq \<noteq> Discovery \<and> respond e n rq = Inr v \<longrightarrow> codec_ok e v"
  shows "\<exists>w2. get_calander_info e year month day False w1 = (Inr s, w2)
           \<and> http_calls w2 = http_calls w1
           \<and> length (fetches Day (new_http w w2)) \<le> 1
           \<and> length (fetches Hour (new_http w w2)) \<le> 1"
proof -
  let ?date = "date_str year month day"
  from first obtain dv hv calls_d calls_h saves_d saves_h where
    s: "s = calendar_data e dv hv" and inst: "db_instance w1" and
    h: "http_calls w1 = http_calls w @ calls_d @ calls_h" and
    dd: "if truthy (cached_day e year month day w)
     then dv = cached_day e year month day w \<and> calls_d = [] \<and> saves_d = []
          \<and> day_calendar w1 = day_calendar w
     else (\<exists>pre rq. calls_d = pre @ [rq] \<and> (\<forall>dim. fetches dim pre = [])
             \<and> endpoint rq = Calendar Day
             \<and> respond e (length (http_calls w @ pre)) rq = Inr dv)
        \<and> dict_get dv ''code'' = Inr (JInt 200)
        \<and> saves_d = [SaveDay ?date dv]
        \<and> day_calendar w1 =
             (case upsert e (length (db_calls w) + 2) (day_calendar w) ?date dv of
                Inl x \<Rightarrow> day_calendar w | Inr t \<Rightarrow> t)" and
    hh: "if truthy (cached_hour e year month day w)
     then hv = cached_hour e year month day w \<and> calls_h = [] \<and> saves_h = []
          \<and> hour_calendar w1 = hour_calendar w
     else (\<exists>pre rq. calls_h = pre @ [rq] \<and> (\<forall>dim. fetches dim pre = [])
             \<and> endpoint rq = Calendar Hour
             \<and> respond e (length (http_calls w @ calls_d @ pre)) rq = Inr hv)
        \<and> dict_get hv ''code'' = Inr (JInt 200)
        \<and> saves_h = [SaveHour ?date hv]
        \<and> hour_calendar w1 =
             (case upsert e (length (db_calls w) + 2 + length saves_d) (hour_calendar w)
                     ?date hv of
                Inl x \<Rightarrow> hour_calendar w | Inr t \<Rightarrow> t)"
    by (rule not_forced_returns)
  have day: "cached_day e year month day w1 = dv \<and> truthy dv
             \<and> length (fetches Day calls_d) \<le> 1 \<and> fetches Hour calls_d = []"
  proof (cases "truthy (cached_day e year month day w)")
    case True
    with dd nofault cached_day_table_only [of e w1 w year month day] show ?thesis by simp
  next
    case False
    with dd obtain pre rq where c: "calls_d = pre @ [rq]" "\<forall>dim. fetches dim pre = []"
      "endpoint rq = Calendar Day" "respond e (length (http_calls w @ pre)) rq = Inr dv"
      and code: "dict_get dv ''code'' = Inr (JInt 200)"
      and t: "day_calendar w1 =
             (case upsert e (length (db_calls w) + 2) (day_calendar w) ?date dv of
                Inl x \<Rightarrow> day_calendar w | Inr t \<Rightarrow> t)"
      by auto
    from c(3) have "endpoint rq \<noteq> Discovery" by simp
    with codec c(4) have "codec_ok e dv" by blast
    from cached_day_stored [OF nofault this t] code_200_truthy [OF code] c
    show ?thesis by (simp add: fetches_single)
  qed
  have hour: "cached_hour e year month day w1 = hv \<and> truthy hv
             \<and> length (fetches Hour calls_h) \<le> 1 \<and> fetches Day calls_h = []"
  proof (cases "truthy (cached_hour e year month day w)")
    case True
    with hh nofault cached_hour_table_only [of e w1 w year month day] show ?thesis by simp
  next
    case False
    with hh obtain pre rq where c: "calls_h = pre @ [rq]" "\<forall>dim. fetches dim pre = []"
      "endpoint rq = Calendar Hour"
      "respond e (length (http_calls w @ calls_d @ pre)) rq = Inr hv"
      and code: "dict_get hv ''code'' = Inr (JInt 200)"
      and t: "hour_calendar w1 =
             (case upsert e (length (db_calls w) + 2 + length saves_d) (hour_calendar w)
                     ?date hv of
                Inl x \<Rightarrow> hour_calendar w | Inr t \<Rightarrow> t)"
      by auto
    from c(3) have "endpoint rq \<noteq> Discovery" by simp
    with codec c(4) have "codec_ok e hv" by blast
    from cached_hour_stored [OF nofault this t] code_200_truthy [OF code] c
    show ?thesis by (simp add: fetches_single)
  qed
  let ?w2 = "w1\<lparr>db_calls := db_calls w1 @ [GetDay ?date, GetHour ?date]\<rparr>"
  from full_hit [OF inst, of e year month day] day hour s
  have second: "get_calander_info e year month day False w1 = (Inr s, ?w2)" by simp
  have "http_calls ?w2 = http_calls w1" by simp
  moreover have "new_http w ?w2 = calls_d @ calls_h"
    using h by (simp add: new_http_def)
  ultimately show ?thesis using second day hour by (intro exI [of _ ?w2]) simp
qed

lemma not_forced_eval:
  "fst (get_calander_info test_env 2025 1 1 False empty_world) = Inr pair_text"
  by (simp add: orchestrator_defs test_env_ensure_ip ensure_ip_cached test_env_simps
      body_simps date_2025 empty_world_def)

theorem repeated_call_is_cache_hit_witness:
  "fst (get_calander_info test_env 2025 1 1 False empty_world) = Inr pair_text
   \<and> fst (get_calander_info test_env 2025 1 1 False
            (snd (get_calander_info test_env 2025 1 1 False empty_world))) = Inr pair_text
   \<and> http_calls (snd (get_calander_info test_env 2025 1 1 False
            (snd (get_calander_info test_env 2025 1 1 False empty_world))))
     = http_calls (snd (get_calander_info test_env 2025 1 1 False empty_world))"
proof -
  let ?w1 = "snd (get_calander_info test_env 2025 1 1 False empty_world)"
  have first: "get_calander_info test_env 2025 1 1 False empty_world = (Inr pair_text, ?w1)"
    using not_forced_eval by (simp add: prod_eq_iff)
  have nofault: "\<forall>n. db_fault test_env n = None" by (simp add: test_env_simps)
  have codec: "\<forall>n rq v. endpoint rq \<noteq> Discovery \<and> respond test_env n rq = Inr v
                 \<longrightarrow> codec_ok test_env v"
    by (auto simp: test_env_simps body_simps split: endpoint.splits dimension.splits)
  from repeated_call_is_cache_hit [OF first nofault codec] obtain w2 where
    2: "get_calander_info test_env 2025 1 1 False ?w1 = (Inr pair_text, w2)" and
    n: "http_calls w2 = http_calls ?w1"
    by blast
  from 2 n not_forced_eval show ?thesis by simp
qed

section \<open>The orchestrator: partial and empty cache rows\<close>

lemma get_db_calls: "db_calls (snd (get_db e w)) = db_calls w"
  by (simp add: get_db_def split: option.splits)

lemma cached_hour_row:
  assumes "hour_calendar w (date_str y m d) = Some r" "data r = Some t" "t \<noteq> []"
    "loads e t = Inr h" "db_fault e (Suc (length (db_calls w))) = None"
  shows "cached_hour e y m d w = h"
  using assms
  by (simp add: cached_hour_def SQLiteDB_get_hour_calendar_def select_data_def Let_def
      get_day_world get_db_tables get_db_calls)

lemma cached_day_row:
  assumes "day_calendar w (date_str y m d) = Some r" "data r = Some t" "t \<noteq> []"
    "loads e t = Inr h" "db_fault e (length (db_calls w)) = None"
  shows "cached_day e y m d w = h"
  using assms
  by (simp add: cached_day_def SQLiteDB_get_day_calendar_def select_data_def Let_def
      get_db_tables get_db_calls)

lemma cached_day_absent:
  "day_calendar w (date_str y m d) = None \<Longrightarrow> cached_day e y m d w = JNull"
  by (simp add: cached_day_def SQLiteDB_get_day_calendar_def select_data_def Let_def
      get_db_tables split: option.splits)

lemma cached_hour_absent:
  "hour_calendar w (date_str y m d) = None \<Longrightarrow> cached_hour e y m d w = JNull"
  by (simp add: cached_hour_def SQLiteDB_get_hour_calendar_def select_data_def Let_def
      get_day_world get_db_tables split: option.splits)

text \<open>
  Claim C6. In a returning call without \<^verbatim>\<open>force_refresh\<close> whose reads find exactly one
  dimension present (truthy), only the other dimension is fetched, exactly once, and saved:
  when the save's transaction meets no exception, the table of the missing dimension is the
  old table with the row of that date inserted or overwritten with the fetched record. The
  present record is returned as read and its table is left as it was. A date with no row
  reads as missing, and a row with non-empty well-formed text reads as its decoded payload,
  so this covers the cache that holds only the hour row.
\<close>

theorem partial_cache_refills_only_missing:
  assumes ret: "get_calander_info e year month day False w = (Inr s, w')"
  shows
    "(\<not> truthy (cached_day e year month day w) \<and> truthy (cached_hour e year month day w) \<longrightarrow>
        (\<exists>day_info rq. s = calendar_data e day_info (cached_hour e year month day w)
           \<and> fetches Day (new_http w w') = [rq] \<and> answered e w w' rq day_info
           \<and> fetches Hour (new_http w w') = []
           \<and> db_calls w' = db_calls w @ [GetDay (date_str year month day),
                 GetHour (date_str year month day), SaveDay (date_str year month day) day_info]
           \<and> hour_calendar w' = hour_calendar w
           \<and> (db_fault e (length (db_calls w) + 2) = None \<longrightarrow>
                day_calendar w' = (day_calendar w)(date_str year month day \<mapsto>
                  (case day_calendar w (date_str year month day) of
                     None \<Rightarrow> \<lparr>data = Some (dumps e day_info),
                               create_time = now_at e (length (db_calls w) + 2),
                               update_time = now_at e (length (db_calls w) + 2)\<rparr>
                   | Some r0 \<Rightarrow> r0\<lparr>data := Some (dumps e day_info),
                                   update_time := now_at e (length (db_calls w) + 2)\<rparr>)))))
     \<and> (truthy (cached_day e year month day w) \<and> \<not> truthy (cached_hour e year month day w) \<longrightarrow>
        (\<exists>hour_info rq. s = calendar_data e (cached_day e year month day w) hour_info
           \<and> fetches Hour (new_http w w') = [rq] \<and> answered e w w' rq hour_info
           \<and> fetches Day (new_http w w') = []
           \<and> db_calls w' = db_calls w @ [GetDay (date_str year month day),
                 GetHour (date_str year month day), SaveHour (date_str year month day) hour_info]
           \<and> day_calendar w' = day_calendar w
           \<and> (db_fault e (length (db_calls w) + 2) = None \<longrightarrow>
                hour_calendar w' = (hour_calendar w)(date_str year month day \<mapsto>
                  (case hour_calendar w (date_str year month day) of
                     None \<Rightarrow> \<lparr>data = Some (dumps e hour_info),
                               create_time = now_at e (length (db_calls w) + 2),
                               update_time = now_at e (length (db_calls w) + 2)\<rparr>
                   | Some r0 \<Rightarrow> r0\<lparr>data := Some (dumps e hour_info),
                                   update_time := now_at e (length (db_calls w) + 2)\<rparr>)))))
     \<and> (day_calendar w (date_str year month day) = None \<longrightarrow>
          cached_day e year month day w = JNull)
     \<and> (hour_calendar w (date_str year month day) = None \<longrightarrow>
          cached_hour e year month day w = JNull)
     \<and> (day_calendar w (date_str year month day) = Some r \<and> data r = Some t \<and> t \<noteq> []
          \<and> loads e t = Inr v \<and> db_fault e (length (db_calls w)) = None \<longrightarrow>
          cached_day e year month day w = v)
     \<and> (hour_calendar w (date_str year month day) = Some r \<and> data r = Some t \<and> t \<noteq> []
          \<and> loads e t = Inr v \<and> db_fault e (Suc (length (db_calls w))) = None \<longrightarrow>
          cached_hour e year month day w = v)"
proof -
  let ?date = "date_str year month day"
  from ret obtain dv hv calls_d calls_h saves_d saves_h where
    s: "s = calendar_data e dv hv" and
    h: "http_calls w' = http_calls w @ calls_d @ calls_h" and
    c: "db_calls w' = db_calls w @ [GetDay ?date, GetHour ?date] @ saves_d @ saves_h" and
    dd: "if truthy (cached_day e year month day w)
     then dv = cached_day e year month day w \<and> calls_d = [] \<and> saves_d = []
          \<and> day_calendar w' = day_calendar w
     else (\<exists>pre rq. calls_d = pre @ [rq] \<and> (\<forall>dim. fetches dim pre = [])
             \<and> endpoint rq = Calendar Day
             \<and> respond e (length (http_calls w @ pre)) rq = Inr dv)
        \<and> dict_get dv ''code'' = Inr (JInt 200)
        \<and> saves_d = [SaveDay ?date dv]
        \<and> day_calendar w' =
             (case upsert e (length (db_calls w) + 2) (day_calendar w) ?date dv of
                Inl x \<Rightarrow> day_calendar w | Inr t \<Rightarrow> t)" and
    hh: "if truthy (cached_hour e year month day w)
     then hv = cached_hour e year month day w \<and> calls_h = [] \<and> saves_h = []
          \<and> hour_calendar w' = hour_calendar w
     else (\<exists>pre rq. calls_h = pre @ [rq] \<and> (\<forall>dim. fetches dim pre = [])
             \<and> endpoint rq = Calendar Hour
             \<and> respond e (length (http_calls w @ calls_d @ pre)) rq = Inr hv)
        \<and> dict_get hv ''code'' = Inr (JInt 200)
        \<and> saves_h = [SaveHour ?date hv]
        \<and> hour_calendar w' =
             (case upsert e (length (db_calls w) + 2 + length saves_d) (hour_calendar w)
                     ?date hv of
                Inl x \<Rightarrow> hour_calendar w | Inr t \<Rightarrow> t)"
    by (rule not_forced_returns)
  have day_missing: "\<exists>day_info rq. s = calendar_data e day_info (cached_hour e year month day w)
           \<and> fetches Day (new_http w w') = [rq] \<and> answered e w w' rq day_info
           \<and> fetches Hour (new_http w w') = []
           \<and> db_calls w' = db_calls w @ [GetDay ?date, GetHour ?date, SaveDay ?date day_info]
           \<and> hour_calendar w' = hour_calendar w
           \<and> (db_fault e (length (db_calls w) + 2) = None \<longrightarrow>
                day_calendar w' = (day_calendar w)(?date \<mapsto>
                  (case day_calendar w (?date) of
                     None \<Rightarrow> \<lparr>data = Some (dumps e day_info),
                               create_time = now_at e (length (db_calls w) + 2),
                               update_time = now_at e (length (db_calls w) + 2)\<rparr>
                   | Some r0 \<Rightarrow> r0\<lparr>data := Some (dumps e day_info),
                                   update_time := now_at e (length (db_calls w) + 2)\<rparr>)))"
    if nd: "\<not> truthy (cached_day e year month day w)"
      and ph: "truthy (cached_hour e year month day w)"
  proof -
    from dd nd obtain pre rq where p: "calls_d = pre @ [rq]" "\<forall>dim. fetches dim pre = []"
      "endpoint rq = Calendar Day" "respond e (length (http_calls w @ pre)) rq = Inr dv"
      and sv: "saves_d = [SaveDay ?date dv]"
      and t: "day_calendar w' =
             (case upsert e (length (db_calls w) + 2) (day_calendar w) ?date dv of
                Inl x \<Rightarrow> day_calendar w | Inr t \<Rightarrow> t)"
      by auto
    from hh ph have k: "hv = cached_hour e year month day w" "calls_h = []" "saves_h = []"
      "hour_calendar w' = hour_calendar w"
      by simp_all
    have calls: "http_calls w' = http_calls w @ pre @ rq # []" using h p k by simp
    have new: "new_http w w' = pre @ [rq]" using calls by (simp add: new_http_def)
    have a: "answered e w w' rq dv" using calls p(4) by (rule answeredI)
    have tb: "day_calendar w' = (day_calendar w)(?date \<mapsto>
           (case day_calendar w ?date of
              None \<Rightarrow> \<lparr>data = Some (dumps e dv),
                        create_time = now_at e (length (db_calls w) + 2),
                        update_time = now_at e (length (db_calls w) + 2)\<rparr>
            | Some r0 \<Rightarrow> r0\<lparr>data := Some (dumps e dv),
                            update_time := now_at e (length (db_calls w) + 2)\<rparr>))"
      if "db_fault e (length (db_calls w) + 2) = None"
      using t upsert_commits [OF that, of "day_calendar w" ?date dv] by simp
    from a tb s k p sv c new show ?thesis
      by (intro exI [of _ dv] exI [of _ rq]) (simp add: fetches_single)
  qed
  have hour_missing: "\<exists>hour_info rq. s = calendar_data e (cached_day e year month day w) hour_info
           \<and> fetches Hour (new_http w w') = [rq] \<and> answered e w w' rq hour_info
           \<and> fetches Day (new_http w w') = []
           \<and> db_calls w' = db_calls w @ [GetDay ?date, GetHour ?date, SaveHour ?date hour_info]
           \<and> day_calendar w' = day_calendar w
           \<and> (db_fault e (length (db_calls w) + 2) = None \<longrightarrow>
                hour_calendar w' = (hour_calendar w)(?date \<mapsto>
                  (case hour_calendar w (?date) of
                     None \<Rightarrow> \<lparr>data = Some (dumps e hour_info),
                               create_time = now_at e (length (db_calls w) + 2),
                               update_time = now_at e (length (db_calls w) + 2)\<rparr>
                   | Some r0 \<Rightarrow> r0\<lparr>data := Some (dumps e hour_info),
                                   update_time := now_at e (length (db_calls w) + 2)\<rparr>)))"
    if pd: "truthy (cached_day e year month day w)"
      and nh: "\<not> truthy (cached_hour e year month day w)"
  proof -
    from dd pd have k: "dv = cached_day e year month day w" "calls_d = []" "saves_d = []"
      "day_calendar w' = day_calendar w"
      by simp_all
    from hh nh k obtain pre rq where p: "calls_h = pre @ [rq]" "\<forall>dim. fetches dim pre = []"
      "endpoint rq = Calendar Hour" "respond e (length (http_calls w @ pre)) rq = Inr hv"
      and sv: "saves_h = [SaveHour ?date hv]"
      and t: "hour_calendar w' =
             (case upsert e (length (db_calls w) + 2) (hour_calendar w) ?date hv of
                Inl x \<Rightarrow> hour_calendar w | Inr t \<Rightarrow> t)"
      by auto
    have calls: "http_calls w' = http_calls w @ pre @ rq # []" using h p k by simp
    have new: "new_http w w' = pre @ [rq]" using calls by (simp add: new_http_def)
    have a: "answered e w w' rq hv" using calls p(4) by (rule answeredI)
    have tb: "hour_calendar w' = (hour_calendar w)(?date \<mapsto>
           (case hour_calendar w ?date of
              None \<Rightarrow> \<lparr>data = Some (dumps e hv),
                        create_time = now_at e (length (db_calls w) + 2),
                        update_time = now_at e (length (db_calls w) + 2)\<rparr>
            | Some r0 \<Rightarrow> r0\<lparr>data := Some (dumps e hv),
                            update_time := now_at e (length (db_calls w) + 2)\<rparr>))"
      if "db_fault e (length (db_calls w) + 2) = None"
      using t upsert_commits [OF that, of "hour_calendar w" ?date hv] by simp
    from a tb s k p sv c new show ?thesis
      by (intro exI [of _ hv] exI [of _ rq]) (simp add: fetches_single)
  qed
  from day_missing hour_missing cached_day_absent [of w year month day e]
    cached_hour_absent [of w year month day e]
    cached_day_row [of w year month day r t e v] cached_hour_row [of w year month day r t e v]
  show ?thesis by blast
qed

lemma hour_only_eval:
  "fst (get_calander_info test_env 2025 1 1 False hour_only_world) = Inr pair_text"
  "db_calls (snd (get_calander_info test_env 2025 1 1 False hour_only_world))
     = [GetDay ''2025-01-01'', GetHour ''2025-01-01'', SaveDay ''2025-01-01'' day_body]"
  "cached_day test_env 2025 1 1 hour_only_world = JNull"
  "cached_hour test_env 2025 1 1 hour_only_world = hour_body"
  "day_calendar (snd (get_calander_info test_env 2025 1 1 False hour_only_world)) ''2025-01-01''
     = Some \<lparr>data = Some day_text, create_time = ''2025-01-01 08:00:02'',
              update_time = ''2025-01-01 08:00:02''\<rparr>"
  by (simp_all add: orchestrator_defs cached_day_def cached_hour_def test_env_ensure_ip
      ensure_ip_cached test_env_simps body_simps date_2025 hour_only_world_def empty_world_def
      day_text_neq now_at_2)

theorem partial_cache_refills_only_missing_witness:
  "fst (get_calander_info test_env 2025 1 1 False hour_only_world) = Inr pair_text
   \<and> cached_hour test_env 2025 1 1 hour_only_world = hour_body
   \<and> fetches Hour (new_http hour_only_world
        (snd (get_calander_info test_env 2025 1 1 False hour_only_world))) = []
   \<and> db_calls (snd (get_calander_info test_env 2025 1 1 False hour_only_world))
        = [GetDay ''2025-01-01'', GetHour ''2025-01-01'', SaveDay ''2025-01-01'' day_body]
   \<and> hour_calendar (snd (get_calander_info test_env 2025 1 1 False hour_only_world))
        = hour_calendar hour_only_world
   \<and> day_calendar hour_only_world ''2025-01-01'' = None
   \<and> day_calendar (snd (get_calander_info test_env 2025 1 1 False hour_only_world))
        ''2025-01-01''
        = Some \<lparr>data = Some day_text, create_time = ''2025-01-01 08:00:02'',
                 update_time = ''2025-01-01 08:00:02''\<rparr>"
proof -
  let ?w' = "snd (get_calander_info test_env 2025 1 1 False hour_only_world)"
  have ret: "get_calander_info test_env 2025 1 1 False hour_only_world = (Inr pair_text, ?w')"
    using hour_only_eval(1) by (simp add: prod_eq_iff)
  have w0: "day_calendar hour_only_world ''2025-01-01'' = None"
    by (simp add: hour_only_world_def empty_world_def)
  from partial_cache_refills_only_missing [OF ret] hour_only_eval(3,4)
  have "fetches Hour (new_http hour_only_world ?w') = []
        \<and> hour_calendar ?w' = hour_calendar hour_only_world"
    by (auto simp: body_simps)
  with hour_only_eval w0 show ?thesis by simp
qed

lemma fetches_Cons:
  "fetches dim (rq # rs) = (if endpoint rq = Calendar dim then rq # fetches dim rs
                            else fetches dim rs)"
  by (simp add: fetches_def)

lemma blank_row_reads_None:
  "day_calendar w date = Some r \<and> (data r = None \<or> data r = Some []) \<longrightarrow>
     fst (SQLiteDB_get_day_calendar e date w) = JNull"
  "hour_calendar w date = Some r \<and> (data r = None \<or> data r = Some []) \<longrightarrow>
     fst (SQLiteDB_get_hour_calendar e date w) = JNull"
  by (auto simp: SQLiteDB_get_day_calendar_def SQLiteDB_get_hour_calendar_def select_data_def
      Let_def split: option.splits)

lemma falsy_row_cached_day:
  assumes "day_calendar w (date_str y m d) = Some r"
    "data r = None \<or> data r = Some [] \<or> (\<exists>v. data r = Some t \<and> loads e t = Inr v \<and> \<not> truthy v)"
  shows "\<not> truthy (cached_day e y m d w)"
  using assms
  by (auto simp: cached_day_def SQLiteDB_get_day_calendar_def select_data_def Let_def
      get_db_tables split: option.splits)

lemma falsy_row_cached_hour:
  assumes "hour_calendar w (date_str y m d) = Some r"
    "data r = None \<or> data r = Some [] \<or> (\<exists>v. data r = Some t \<and> loads e t = Inr v \<and> \<not> truthy v)"
  shows "\<not> truthy (cached_hour e y m d w)"
  using assms
  by (auto simp: cached_hour_def SQLiteDB_get_hour_calendar_def select_data_def Let_def
      get_day_world get_db_tables split: option.splits)

text \<open>
  Claim C10. A getter returns \<^verbatim>\<open>None\<close> for a row whose \<^verbatim>\<open>data\<close> column is NULL or empty; a
  row that is empty or decodes to a falsy payload reads as falsy at the start of a call
  without \<^verbatim>\<open>force_refresh\<close>; and a dimension read as falsy is fetched from the network, the
  fetched record is returned and saved, overwriting the row when the store does not fail.
\<close>

theorem empty_payload_is_cache_miss:
  assumes ret: "get_calander_info e year month day False w = (Inr s, w')"
  shows
    "(day_calendar w (date_str year month day) = Some r \<and> (data r = None \<or> data r = Some [])
        \<longrightarrow> fst (SQLiteDB_get_day_calendar e (date_str year month day) w) = JNull)
     \<and> (hour_calendar w (date_str year month day) = Some r \<and> (data r = None \<or> data r = Some [])
        \<longrightarrow> fst (SQLiteDB_get_hour_calendar e (date_str year month day) w) = JNull)
     \<and> (day_calendar w (date_str year month day) = Some r
          \<and> (data r = None \<or> data r = Some []
              \<or> (\<exists>v. data r = Some t \<and> loads e t = Inr v \<and> \<not> truthy v))
        \<longrightarrow> \<not> truthy (cached_day e year month day w))
     \<and> (hour_calendar w (date_str year month day) = Some r
          \<and> (data r = None \<or> data r = Some []
              \<or> (\<exists>v. data r = Some t \<and> loads e t = Inr v \<and> \<not> truthy v))
        \<longrightarrow> \<not> truthy (cached_hour e year month day w))
     \<and> (\<not> truthy (cached_day e year month day w) \<longrightarrow>
          (\<exists>day_info hour_info rq. s = calendar_data e day_info hour_info
             \<and> fetches Day (new_http w w') = [rq] \<and> answered e w w' rq day_info
             \<and> SaveDay (date_str year month day) day_info
                 \<in> set (drop (length (db_calls w)) (db_calls w'))
             \<and> ((\<forall>n. db_fault e n = None) \<longrightarrow>
                  (\<exists>r'. day_calendar w' (date_str year month day) = Some r'
                        \<and> data r' = Some (dumps e day_info)))))
     \<and> (\<not> truthy (cached_hour e year month day w) \<longrightarrow>
          (\<exists>day_info hour_info rq. s = calendar_data e day_info hour_info
             \<and> fetches Hour (new_http w w') = [rq] \<and> answered e w w' rq hour_info
             \<and> SaveHour (date_str year month day) hour_info
                 \<in> set (drop (length (db_calls w)) (db_calls w'))
             \<and> ((\<forall>n. db_fault e n = None) \<longrightarrow>
                  (\<exists>r'. hour_calendar w' (date_str year month day) = Some r'
                        \<and> data r' = Some (dumps e hour_info)))))"
proof -
  let ?date = "date_str year month day"
  from ret obtain dv hv calls_d calls_h saves_d saves_h where
    s: "s = calendar_data e dv hv" and
    h: "http_calls w' = http_calls w @ calls_d @ calls_h" and
    c: "db_calls w' = db_calls w @ [GetDay ?date, GetHour ?date] @ saves_d @ saves_h" and
    dd: "if truthy (cached_day e year month day w)
     then dv = cached_day e year month day w \<and> calls_d = [] \<and> saves_d = []
          \<and> day_calendar w' = day_calendar w
     else (\<exists>pre rq. calls_d = pre @ [rq] \<and> (\<forall>dim. fetches dim pre = [])
             \<and> endpoint rq = Calendar Day
             \<and> respond e (length (http_calls w @ pre)) rq = Inr dv)
        \<and> dict_get dv ''code'' = Inr (JInt 200)
        \<and> saves_d = [SaveDay ?date dv]
        \<and> day_calendar w' =
             (case upsert e (length (db_calls w) + 2) (day_calendar w) ?date dv of
                Inl x \<Rightarrow> day_calendar w | Inr t \<Rightarrow> t)" and
    hh: "if truthy (cached_hour e year month day w)
     then hv = cached_hour e year month day w \<and> calls_h = [] \<and> saves_h = []
          \<and> hour_calendar w' = hour_calendar w
     else (\<exists>pre rq. calls_h = pre @ [rq] \<and> (\<forall>dim. fetches dim pre = [])
             \<and> endpoint rq = Calendar Hour
             \<and> respond e (length (http_calls w @ calls_d @ pre)) rq = Inr hv)
        \<and> dict_get hv ''code'' = Inr (JInt 200)
        \<and> saves_h = [SaveHour ?date hv]
        \<and> hour_calendar w' =
             (case upsert e (length (db_calls w) + 2 + length saves_d) (hour_calendar w)
                     ?date hv of
                Inl x \<Rightarrow> hour_calendar w | Inr t \<Rightarrow> t)"
    by (rule not_forced_returns)
  have new: "new_http w w' = calls_d @ calls_h" using h by (simp add: new_http_def)
  have dh: "fetches Hour calls_d = []" using dd by (auto simp: fetches_single split: if_splits)
  have hd: "fetches Day calls_h = []" using hh by (auto simp: fetches_single split: if_splits)
  have day: "\<exists>day_info hour_info rq. s = calendar_data e day_info hour_info
             \<and> fetches Day (new_http w w') = [rq] \<and> answered e w w' rq day_info
             \<and> SaveDay ?date day_info \<in> set (drop (length (db_calls w)) (db_calls w'))
             \<and> ((\<forall>n. db_fault e n = None) \<longrightarrow>
                  (\<exists>r'. day_calendar w' ?date = Some r' \<and> data r' = Some (dumps e day_info)))"
    if nd: "\<not> truthy (cached_day e year month day w)"
  proof -
    from dd nd obtain pre rq where p: "calls_d = pre @ [rq]" "\<forall>dim. fetches dim pre = []"
      "endpoint rq = Calendar Day" "respond e (length (http_calls w @ pre)) rq = Inr dv"
      and sv: "saves_d = [SaveDay ?date dv]"
      and t: "day_calendar w' =
             (case upsert e (length (db_calls w) + 2) (day_calendar w) ?date dv of
                Inl x \<Rightarrow> day_calendar w | Inr t \<Rightarrow> t)"
      by auto
    have calls: "http_calls w' = http_calls w @ pre @ rq # calls_h" using h p by simp
    have a: "answered e w w' rq dv" using calls p(4) by (rule answeredI)
    have f: "fetches Day (new_http w w') = [rq]"
      unfolding new using p hd by (simp add: fetches_single fetches_Cons)
    have m: "SaveDay ?date dv \<in> set (drop (length (db_calls w)) (db_calls w'))"
      using c sv by simp
    have o: "\<exists>r'. day_calendar w' ?date = Some r' \<and> data r' = Some (dumps e dv)"
      if "\<forall>n. db_fault e n = None"
      using upsert_row [of e "length (db_calls w) + 2" "day_calendar w" ?date dv] that t
      by auto
    from s a f m o show ?thesis by blast
  qed
  have hour: "\<exists>day_info hour_info rq. s = calendar_data e day_info hour_info
             \<and> fetches Hour (new_http w w') = [rq] \<and> answered e w w' rq hour_info
             \<and> SaveHour ?date hour_info \<in> set (drop (length (db_calls w)) (db_calls w'))
             \<and> ((\<forall>n. db_fault e n = None) \<longrightarrow>
                  (\<exists>r'. hour_calendar w' ?date = Some r' \<and> data r' = Some (dumps e hour_info)))"
    if nh: "\<not> truthy (cached_hour e year month day w)"
  proof -
    from hh nh obtain pre rq where p: "calls_h = pre @ [rq]" "\<forall>dim. fetches dim pre = []"
      "endpoint rq = Calendar Hour"
      "respond e (length (http_calls w @ calls_d @ pre)) rq = Inr hv"
      and sv: "saves_h = [SaveHour ?date hv]"
      and t: "hour_calendar w' =
             (case upsert e (length (db_calls w) + 2 + length saves_d) (hour_calendar w)
                     ?date hv of
                Inl x \<Rightarrow> hour_calendar w | Inr t \<Rightarrow> t)"
      by auto
    have calls: "http_calls w' = http_calls w @ (calls_d @ pre) @ rq # []" using h p by simp
    have "respond e (length (http_calls w @ (calls_d @ pre))) rq = Inr hv" using p(4) by simp
    with calls have a: "answered e w w' rq hv" by (rule answeredI)
    have f: "fetches Hour (new_http w w') = [rq]"
      unfolding new using p dh by (simp add: fetches_single)
    have m: "SaveHour ?date hv \<in> set (drop (length (db_calls w)) (db_calls w'))"
      using c sv by simp
    have o: "\<exists>r'. hour_calendar w' ?date = Some r' \<and> data r' = Some (dumps e hv)"
      if "\<forall>n. db_fault e n = None"
      using upsert_row [of e "length (db_calls w) + 2 + length saves_d" "hour_calendar w" ?date hv]
        that t
      by auto
    from s a f m o show ?thesis by blast
  qed
  from day hour blank_row_reads_None [of w ?date r e]
    falsy_row_cached_day [of w year month day r t e]
    falsy_row_cached_hour [of w year month day r t e]
  show ?thesis by blast
qed

lemma blank_day_eval:
  "fst (get_calander_info test_env 2025 1 1 False blank_day_world) = Inr pair_text"
  "fst (SQLiteDB_get_day_calendar test_env ''2025-01-01'' blank_day_world) = JNull"
  "day_calendar blank_day_world ''2025-01-01''
     = Some \<lparr>data = Some [], create_time = ''2024-12-31 23:00:00'',
              update_time = ''2024-12-31 23:00:00''\<rparr>"
  "day_calendar (snd (get_calander_info test_env 2025 1 1 False blank_day_world)) ''2025-01-01''
     = Some \<lparr>data = Some day_text, create_time = ''2024-12-31 23:00:00'',
              update_time = ''2025-01-01 08:00:02''\<rparr>"
  by (simp_all add: orchestrator_defs test_env_ensure_ip
      ensure_ip_cached test_env_simps body_simps date_2025 blank_day_world_def
      hour_only_world_def empty_world_def day_text_neq now_at_2)

theorem empty_payload_is_cache_miss_witness:
  "day_calendar blank_day_world ''2025-01-01''
     = Some \<lparr>data = Some [], create_time = ''2024-12-31 23:00:00'',
              update_time = ''2024-12-31 23:00:00''\<rparr>
   \<and> fst (SQLiteDB_get_day_calendar test_env ''2025-01-01'' blank_day_world) = JNull
   \<and> fst (get_calander_info test_env 2025 1 1 False blank_day_world) = Inr pair_text
   \<and> length (fetches Day (new_http blank_day_world
        (snd (get_calander_info test_env 2025 1 1 False blank_day_world)))) = 1
   \<and> day_calendar (snd (get_calander_info test_env 2025 1 1 False blank_day_world)) ''2025-01-01''
     = Some \<lparr>data = Some day_text, create_time = ''2024-12-31 23:00:00'',
              update_time = ''2025-01-01 08:00:02''\<rparr>"
proof -
  let ?w' = "snd (get_calander_info test_env 2025 1 1 False blank_day_world)"
  let ?r = "\<lparr>data = Some [], create_time = ''2024-12-31 23:00:00'',
              update_time = ''2024-12-31 23:00:00''\<rparr>"
  have ret: "get_calander_info test_env 2025 1 1 False blank_day_world = (Inr pair_text, ?w')"
    using blank_day_eval(1) by (simp add: prod_eq_iff)
  from empty_payload_is_cache_miss [OF ret, of ?r] blank_day_eval(3)
  have "\<not> truthy (cached_day test_env 2025 1 1 blank_day_world)"
    by (simp add: date_2025)
  with empty_payload_is_cache_miss [OF ret, of ?r]
  have "\<exists>rq. fetches Day (new_http blank_day_world ?w') = [rq]" by blast
  then have "length (fetches Day (new_http blank_day_world ?w')) = 1" by auto
  with blank_day_eval show ?thesis by simp
qed

section \<open>The orchestrator: failures\<close>

lemma client_day_ignores_store:
  assumes "http_calls wa = http_calls wb"
  shows "fst (CalendarAPI_get_day_calendar (e\<lparr>db_fault := flt\<rparr>) api y m d wa)
           = fst (CalendarAPI_get_day_calendar e api y m d wb)
       \<and> fst (snd (CalendarAPI_get_day_calendar (e\<lparr>db_fault := flt\<rparr>) api y m d wa))
           = fst (snd (CalendarAPI_get_day_calendar e api y m d wb))
       \<and> http_calls (snd (snd (CalendarAPI_get_day_calendar (e\<lparr>db_fault := flt\<rparr>) api y m d wa)))
           = http_calls (snd (snd (CalendarAPI_get_day_calendar e api y m d wb)))"
  using assms
  by (simp add: CalendarAPI_get_day_calendar_def ensure_ip_def get_optimal_api_ip_def
      fetch_calendar_def http_get_def split: sum.splits prod.splits)

lemma client_hour_ignores_store:
  assumes "http_calls wa = http_calls wb"
  shows "fst (CalendarAPI_get_hour_calendar (e\<lparr>db_fault := flt\<rparr>) api y m d wa)
           = fst (CalendarAPI_get_hour_calendar e api y m d wb)
       \<and> fst (snd (CalendarAPI_get_hour_calendar (e\<lparr>db_fault := flt\<rparr>) api y m d wa))
           = fst (snd (CalendarAPI_get_hour_calendar e api y m d wb))
       \<and> http_calls (snd (snd (CalendarAPI_get_hour_calendar (e\<lparr>db_fault := flt\<rparr>) api y m d wa)))
           = http_calls (snd (snd (CalendarAPI_get_hour_calendar e api y m d wb)))"
  using assms
  by (simp add: CalendarAPI_get_hour_calendar_def ensure_ip_def get_optimal_api_ip_def
      fetch_calendar_def http_get_def split: sum.splits prod.splits)

lemma save_http_calls:
  "http_calls (snd (SQLiteDB_save_day_calendar e date v w)) = http_calls w"
  "http_calls (snd (SQLiteDB_save_hour_calendar e date v w)) = http_calls w"
  by (simp_all add: SQLiteDB_save_day_calendar_def SQLiteDB_save_hour_calendar_def Let_def
      split: sum.splits)

lemma refill_day_alt:
  "refill_day e api y m d w =
     (case CalendarAPI_get_day_calendar e api y m d w of
        (Inl x, a, w') \<Rightarrow> (Inl x, a, w')
      | (Inr v, a, w') \<Rightarrow>
          (Inr v, a, snd (SQLiteDB_save_day_calendar e (date_str y m d) v w')))"
  by (simp add: refill_day_def split: prod.splits sum.splits)

lemma refill_hour_alt:
  "refill_hour e api y m d w =
     (case CalendarAPI_get_hour_calendar e api y m d w of
        (Inl x, a, w') \<Rightarrow> (Inl x, a, w')
      | (Inr v, a, w') \<Rightarrow>
          (Inr v, a, snd (SQLiteDB_save_hour_calendar e (date_str y m d) v w')))"
  by (simp add: refill_hour_def split: prod.splits sum.splits)

lemma refill_day_ignores_store:
  assumes "http_calls wa = http_calls wb"
  shows "fst (refill_day (e\<lparr>db_fault := flt\<rparr>) api y m d wa) = fst (refill_day e api y m d wb)
       \<and> fst (snd (refill_day (e\<lparr>db_fault := flt\<rparr>) api y m d wa))
           = fst (snd (refill_day e api y m d wb))
       \<and> http_calls (snd (snd (refill_day (e\<lparr>db_fault := flt\<rparr>) api y m d wa)))
           = http_calls (snd (snd (refill_day e api y m d wb)))"
proof -
  obtain r a wa' where A: "CalendarAPI_get_day_calendar (e\<lparr>db_fault := flt\<rparr>) api y m d wa = (r, a, wa')"
    using prod_cases3 by blast
  obtain r2 a2 wb' where B: "CalendarAPI_get_day_calendar e api y m d wb = (r2, a2, wb')"
    using prod_cases3 by blast
  from client_day_ignores_store [OF assms, where e = e and flt = flt and api = api
      and y = y and m = m and d = d] A B
  have eq: "r2 = r" "a2 = a" "http_calls wa' = http_calls wb'" by simp_all
  show ?thesis
    unfolding refill_day_alt A B eq
    by (cases r) (simp_all add: eq save_http_calls)
qed

lemma refill_hour_ignores_store:
  assumes "http_calls wa = http_calls wb"
  shows "fst (refill_hour (e\<lparr>db_fault := flt\<rparr>) api y m d wa) = fst (refill_hour e api y m d wb)
       \<and> fst (snd (refill_hour (e\<lparr>db_fault := flt\<rparr>) api y m d wa))
           = fst (snd (refill_hour e api y m d wb))
       \<and> http_calls (snd (snd (refill_hour (e\<lparr>db_fault := flt\<rparr>) api y m d wa)))
           = http_calls (snd (snd (refill_hour e api y m d wb)))"
proof -
  obtain r a wa' where A: "CalendarAPI_get_hour_calendar (e\<lparr>db_fault := flt\<rparr>) api y m d wa = (r, a, wa')"
    using prod_cases3 by blast
  obtain r2 a2 wb' where B: "CalendarAPI_get_hour_calendar e api y m d wb = (r2, a2, wb')"
    using prod_cases3 by blast
  from client_hour_ignores_store [OF assms, where e = e and flt = flt and api = api
      and y = y and m = m and d = d] A B
  have eq: "r2 = r" "a2 = a" "http_calls wa' = http_calls wb'" by simp_all
  show ?thesis
    unfolding refill_hour_alt A B eq
    by (cases r) (simp_all add: eq save_http_calls)
qed

lemma refill_day_error:
  assumes "refill_day e api y m d w = (Inl x, a, w')"
  shows "(\<exists>c. x = Wrapped OptimalIp c) \<or> (\<exists>dim c. x = Wrapped (Fetch dim) c)"
  using refill_day_cases [OF assms] by auto

lemma refill_hour_error:
  assumes "refill_hour e api y m d w = (Inl x, a, w')"
  shows "(\<exists>c. x = Wrapped OptimalIp c) \<or> (\<exists>dim c. x = Wrapped (Fetch dim) c)"
  using refill_hour_cases [OF assms] by auto

lemma forced_body_outcome:
  "case fst (calander_body e y m d True w) of
     Inl x \<Rightarrow> init_fault e = Some x \<or> (\<exists>c. x = Wrapped OptimalIp c)
              \<or> (\<exists>dim c. x = Wrapped (Fetch dim) c)
   | Inr s \<Rightarrow> \<exists>dv hv. s = calendar_data e dv hv"
proof -
  obtain r0 w0 where g: "get_db e w = (r0, w0)" by (cases "get_db e w") auto
  obtain r1 a1 w1 where D: "refill_day e (CalendarAPI_init e) y m d w0 = (r1, a1, w1)"
    using prod_cases3 by blast
  obtain r2 a2 w2 where H: "refill_hour e a1 y m d w1 = (r2, a2, w2)"
    using prod_cases3 by blast
  show ?thesis
  proof (cases r0)
    case (Inl x)
    with get_db_cases [OF g] g show ?thesis by (simp add: calander_body_def)
  next
    case u: (Inr u)
    show ?thesis
    proof (cases r1)
      case (Inl x)
      with refill_day_error [of e _ y m d w0 x a1 w1] D g u show ?thesis
        by (simp add: calander_body_def)
    next
      case dv: (Inr dv)
      show ?thesis
      proof (cases r2)
        case (Inl x)
        with refill_hour_error [of e a1 y m d w1 x a2 w2] H D g u dv show ?thesis
          by (simp add: calander_body_def)
      next
        case (Inr hv)
        with H D g u dv show ?thesis by (auto simp: calander_body_def)
      qed
    qed
  qed
qed

lemma not_forced_body_outcome:
  "case fst (calander_body e y m d False w) of
     Inl x \<Rightarrow> init_fault e = Some x \<or> (\<exists>c. x = Wrapped OptimalIp c)
              \<or> (\<exists>dim c. x = Wrapped (Fetch dim) c)
   | Inr s \<Rightarrow> \<exists>dv hv. s = calendar_data e dv hv"
proof -
  obtain r0 w0 where g: "get_db e w = (r0, w0)" by (cases "get_db e w") auto
  let ?w2 = "w0\<lparr>db_calls := db_calls w0 @ [GetDay (date_str y m d), GetHour (date_str y m d)]\<rparr>"
  obtain r1 a1 w1 where D:
    "(if \<not> truthy (cached_day e y m d w)
      then refill_day e (CalendarAPI_init e) y m d ?w2
      else (Inr (cached_day e y m d w), CalendarAPI_init e, ?w2)) = (r1, a1, w1)"
    using prod_cases3 by blast
  obtain r2 a2 w2 where H:
    "(if \<not> truthy (cached_hour e y m d w)
      then refill_hour e a1 y m d w1
      else (Inr (cached_hour e y m d w), a1, w1)) = (r2, a2, w2)"
    using prod_cases3 by blast
  show ?thesis
  proof (cases r0)
    case (Inl x)
    with get_db_cases [OF g] g show ?thesis by (simp add: not_forced_body)
  next
    case u: (Inr u)
    show ?thesis
    proof (cases r1)
      case (Inl x)
      with D have "refill_day e (CalendarAPI_init e) y m d ?w2 = (Inl x, a1, w1)"
        by (simp split: if_splits)
      from refill_day_error [OF this] D g u Inl show ?thesis
        unfolding not_forced_body g by simp
    next
      case dv: (Inr dv)
      show ?thesis
      proof (cases r2)
        case (Inl x)
        with H have "refill_hour e a1 y m d w1 = (Inl x, a2, w2)"
          by (simp split: if_splits)
        from refill_hour_error [OF this] H D g u dv Inl show ?thesis
          unfolding not_forced_body g by simp
      next
        case (Inr hv)
        with H D g u dv show ?thesis
          unfolding not_forced_body g by auto
      qed
    qed
  qed
qed

lemma forced_ignores_store_faults:
  "fst (get_calander_info (e\<lparr>db_fault := flt\<rparr>) y m d True w)
     = fst (get_calander_info e y m d True w)"
proof -
  let ?e' = "e\<lparr>db_fault := flt\<rparr>"
  obtain r0 w0 where g: "get_db e w = (r0, w0)" by (cases "get_db e w") auto
  have "get_db ?e' w = get_db e w" by (simp add: get_db_def)
  with g have g': "get_db ?e' w = (r0, w0)" by simp
  have init: "CalendarAPI_init ?e' = CalendarAPI_init e" by (simp add: CalendarAPI_init_def)
  have cd: "calendar_data ?e' = calendar_data e" by (simp add: calendar_data_def fun_eq_iff)
  obtain r1 a1 wa1 where D': "refill_day ?e' (CalendarAPI_init e) y m d w0 = (r1, a1, wa1)"
    using prod_cases3 by blast
  obtain q1 b1 wb1 where D: "refill_day e (CalendarAPI_init e) y m d w0 = (q1, b1, wb1)"
    using prod_cases3 by blast
  have "http_calls w0 = http_calls w0" by simp
  from refill_day_ignores_store [OF this, where e = e and flt = flt
      and api = "CalendarAPI_init e" and y = y and m = m and d = d] D D'
  have e1: "q1 = r1" "b1 = a1" "http_calls wa1 = http_calls wb1" by simp_all
  obtain r2 a2 wa2 where H': "refill_hour ?e' a1 y m d wa1 = (r2, a2, wa2)"
    using prod_cases3 by blast
  obtain q2 b2 wb2 where H: "refill_hour e a1 y m d wb1 = (q2, b2, wb2)"
    using prod_cases3 by blast
  from refill_hour_ignores_store [OF e1(3), where e = e and flt = flt
      and api = a1 and y = y and m = m and d = d] H H'
  have e2: "q2 = r2" by simp
  show ?thesis
    unfolding get_calander_info_def calander_body_def g g' init cd
    using D D' H H' e1 e2
    by (cases r0; cases r1; cases r2) simp_all
qed

text \<open>
  Claim C1, as amended. Every call ends in one of two ways: a single exception that wraps its
  cause, the cause being the failure to open the store, an endpoint-resolution failure or a
  fetch failure; or the complete pair. A failure to open the store, and a failure of any of
  the fetches the call makes (day or hour, forced or after a miss), do fail the call with
  that cause wrapped. A failure inside a store transaction does not: the result of a forced
  refresh is the same whatever transactions fail.
\<close>

theorem retrieval_fails_wrapped_or_returns_pair:
  "(case fst (get_calander_info e year month day force_refresh w) of
      Inl x \<Rightarrow> \<exists>c. x = Wrapped GetData c
                \<and> (init_fault e = Some c \<or> (\<exists>c'. c = Wrapped OptimalIp c')
                    \<or> (\<exists>dim c'. c = Wrapped (Fetch dim) c'))
    | Inr s \<Rightarrow> \<exists>day_info hour_info. s = calendar_data e day_info hour_info)
   \<and> (fst (get_db e w) = Inl x \<longrightarrow>
        fst (get_calander_info e year month day force_refresh w) = Inl (Wrapped GetData x))
   \<and> (fst (get_db e w) = Inr ()
        \<and> fst (CalendarAPI_get_day_calendar e (CalendarAPI_init e) year month day
                 (snd (get_db e w))) = Inl x \<longrightarrow>
        fst (get_calander_info e year month day True w) = Inl (Wrapped GetData x))
   \<and> (get_db e w = (Inr u, w0)
        \<and> refill_day e (CalendarAPI_init e) year month day w0 = (Inr day_info, api1, w1)
        \<and> fst (CalendarAPI_get_hour_calendar e api1 year month day w1) = Inl x \<longrightarrow>
        fst (get_calander_info e year month day True w) = Inl (Wrapped GetData x))
   \<and> (get_db e w = (Inr u, w0) \<and> \<not> truthy (cached_day e year month day w)
        \<and> fst (CalendarAPI_get_day_calendar e (CalendarAPI_init e) year month day
                 (w0\<lparr>db_calls := db_calls w0 @ [GetDay (date_str year month day),
                                                     GetHour (date_str year month day)]\<rparr>))
            = Inl x \<longrightarrow>
        fst (get_calander_info e year month day False w) = Inl (Wrapped GetData x))
   \<and> (get_db e w = (Inr u, w0)
        \<and> (if \<not> truthy (cached_day e year month day w)
             then refill_day e (CalendarAPI_init e) year month day
                    (w0\<lparr>db_calls := db_calls w0 @ [GetDay (date_str year month day),
                                                        GetHour (date_str year month day)]\<rparr>)
             else (Inr (cached_day e year month day w), CalendarAPI_init e,
                    w0\<lparr>db_calls := db_calls w0 @ [GetDay (date_str year month day),
                                                        GetHour (date_str year month day)]\<rparr>))
            = (Inr day_info, api1, w1)
        \<and> \<not> truthy (cached_hour e year month day w)
        \<and> fst (CalendarAPI_get_hour_calendar e api1 year month day w1) = Inl x \<longrightarrow>
        fst (get_calander_info e year month day False w) = Inl (Wrapped GetData x))
   \<and> fst (get_calander_info (e\<lparr>db_fault := flt\<rparr>) year month day True w)
       = fst (get_calander_info e year month day True w)"
proof -
  have shape: "case fst (calander_body e year month day force_refresh w) of
     Inl x \<Rightarrow> init_fault e = Some x \<or> (\<exists>c. x = Wrapped OptimalIp c)
              \<or> (\<exists>dim c. x = Wrapped (Fetch dim) c)
   | Inr s \<Rightarrow> \<exists>dv hv. s = calendar_data e dv hv"
    using forced_body_outcome [of e year month day w]
      not_forced_body_outcome [of e year month day w]
    by (cases force_refresh) simp_all
  have 1: "case fst (get_calander_info e year month day force_refresh w) of
      Inl x \<Rightarrow> \<exists>c. x = Wrapped GetData c
                \<and> (init_fault e = Some c \<or> (\<exists>c'. c = Wrapped OptimalIp c')
                    \<or> (\<exists>dim c'. c = Wrapped (Fetch dim) c'))
    | Inr s \<Rightarrow> \<exists>day_info hour_info. s = calendar_data e day_info hour_info"
    using shape
    by (cases "calander_body e year month day force_refresh w")
      (auto simp: get_calander_info_def split: sum.splits)
  have 2: "fst (get_calander_info e year month day force_refresh w) = Inl (Wrapped GetData x)"
    if "fst (get_db e w) = Inl x"
    using that
    by (cases "get_db e w") (simp add: get_calander_info_def calander_body_def)
  have 3: "fst (get_calander_info e year month day True w) = Inl (Wrapped GetData x)"
    if "fst (get_db e w) = Inr ()"
      "fst (CalendarAPI_get_day_calendar e (CalendarAPI_init e) year month day
             (snd (get_db e w))) = Inl x"
    using that
    by (cases "get_db e w";
        cases "CalendarAPI_get_day_calendar e (CalendarAPI_init e) year month day (snd (get_db e w))")
      (simp add: get_calander_info_def calander_body_def refill_day_alt)
  have 4: "fst (get_calander_info e year month day True w) = Inl (Wrapped GetData x)"
    if "get_db e w = (Inr u, w0)"
      "refill_day e (CalendarAPI_init e) year month day w0 = (Inr day_info, api1, w1)"
      "fst (CalendarAPI_get_hour_calendar e api1 year month day w1) = Inl x"
    using that
    by (cases "CalendarAPI_get_hour_calendar e api1 year month day w1")
      (simp add: get_calander_info_def calander_body_def refill_hour_alt)
  have 5: "fst (get_calander_info e year month day False w) = Inl (Wrapped GetData x)"
    if "get_db e w = (Inr u, w0)" "\<not> truthy (cached_day e year month day w)"
      "fst (CalendarAPI_get_day_calendar e (CalendarAPI_init e) year month day
             (w0\<lparr>db_calls := db_calls w0 @ [GetDay (date_str year month day),
                                                 GetHour (date_str year month day)]\<rparr>))
        = Inl x"
    using that
    by (cases "CalendarAPI_get_day_calendar e (CalendarAPI_init e) year month day
             (w0\<lparr>db_calls := db_calls w0 @ [GetDay (date_str year month day),
                                                 GetHour (date_str year month day)]\<rparr>)")
      (simp add: get_calander_info_def not_forced_body refill_day_alt)
  have 6: "fst (get_calander_info e year month day False w) = Inl (Wrapped GetData x)"
    if "get_db e w = (Inr u, w0)"
      "(if \<not> truthy (cached_day e year month day w)
        then refill_day e (CalendarAPI_init e) year month day
               (w0\<lparr>db_calls := db_calls w0 @ [GetDay (date_str year month day),
                                                   GetHour (date_str year month day)]\<rparr>)
        else (Inr (cached_day e year month day w), CalendarAPI_init e,
               w0\<lparr>db_calls := db_calls w0 @ [GetDay (date_str year month day),
                                                   GetHour (date_str year month day)]\<rparr>))
        = (Inr day_info, api1, w1)"
      "\<not> truthy (cached_hour e year month day w)"
      "fst (CalendarAPI_get_hour_calendar e api1 year month day w1) = Inl x"
    using that(3,4)
    unfolding get_calander_info_def not_forced_body that(1) prod.case sum.case that(2)
    by (cases "CalendarAPI_get_hour_calendar e api1 year month day w1")
      (simp add: refill_hour_alt)
  from 1 2 3 4 5 6 forced_ignores_store_faults [where e = e and flt = flt and y = year
      and m = month and d = day and w = w]
  show ?thesis by blast
qed

lemma failing_store_ensure_ip:
  "ensure_ip failing_store_env (CalendarAPI_init failing_store_env) w
     = (Inr (), (CalendarAPI_init failing_store_env)\<lparr>current_ip := Some ''10.0.0.1:8080''\<rparr>,
        w\<lparr>http_calls := http_calls w @ [discovery_request (CalendarAPI_init failing_store_env)]\<rparr>)"
  by (simp add: ensure_ip_def get_optimal_api_ip_def http_get_def extract_ip_def dict_get_def
      CalendarAPI_init_def discovery_request_def failing_store_env_simps test_env_simps
      discovery_body_def rstrip_def)

lemma failing_store_eval:
  "fst (get_calander_info failing_store_env 2025 1 1 True empty_world) = Inr pair_text"
  "db_calls (snd (get_calander_info failing_store_env 2025 1 1 True empty_world))
     = [SaveDay ''2025-01-01'' day_body, SaveHour ''2025-01-01'' hour_body]"
  "day_calendar (snd (get_calander_info failing_store_env 2025 1 1 True empty_world))
     ''2025-01-01'' = None"
  "hour_calendar (snd (get_calander_info failing_store_env 2025 1 1 True empty_world))
     ''2025-01-01'' = None"
  by (simp_all add: orchestrator_defs failing_store_ensure_ip ensure_ip_cached
      failing_store_env_simps test_env_simps body_simps date_2025 empty_world_def)

text \<open>
  Claim C1 as stated fails: with a store whose every transaction raises, a forced refresh
  makes both saves, both fail and leave the tables empty, and the call returns the pair
  without any error.
\<close>

theorem failed_cache_writes_are_swallowed:
  "(\<forall>n. db_fault failing_store_env n = Some (Raised ''OperationalError''))
   \<and> fst (get_calander_info failing_store_env 2025 1 1 True empty_world) = Inr pair_text
   \<and> db_calls (snd (get_calander_info failing_store_env 2025 1 1 True empty_world))
       = [SaveDay ''2025-01-01'' day_body, SaveHour ''2025-01-01'' hour_body]
   \<and> day_calendar (snd (get_calander_info failing_store_env 2025 1 1 True empty_world))
       ''2025-01-01'' = None
   \<and> hour_calendar (snd (get_calander_info failing_store_env 2025 1 1 True empty_world))
       ''2025-01-01'' = None"
  using failing_store_eval by (simp add: failing_store_env_simps)

theorem retrieval_fails_wrapped_or_returns_pair_witness:
  "fst (get_calander_info empty_address_env 2025 1 1 True empty_world)
     = Inl (Wrapped GetData (Wrapped (Fetch Day) (Raised ''InvalidURL'')))
   \<and> fst (get_calander_info failing_store_env 2025 1 1 True empty_world)
     = fst (get_calander_info test_env 2025 1 1 True empty_world)"
proof -
  have g: "fst (get_db empty_address_env empty_world) = Inr ()"
    by (simp add: get_db_def empty_address_env_def test_env_simps empty_world_def)
  have "current_ip (CalendarAPI_init empty_address_env) = None"
    by (simp add: CalendarAPI_init_def)
  then have f: "fst (CalendarAPI_get_day_calendar empty_address_env
                  (CalendarAPI_init empty_address_env) 2025 1 1
                  (snd (get_db empty_address_env empty_world)))
                = Inl (Wrapped (Fetch Day) (Raised ''InvalidURL''))"
    by (simp add: CalendarAPI_get_day_calendar_def empty_address_env_ensure_ip
        fetch_calendar_def http_get_def empty_address_env_simps calendar_request_def)
  from retrieval_fails_wrapped_or_returns_pair [where e = empty_address_env and year = 2025
      and month = 1 and day = 1 and force_refresh = True and w = empty_world
      and x = "Wrapped (Fetch Day) (Raised ''InvalidURL'')"] g f
  have 1: "fst (get_calander_info empty_address_env 2025 1 1 True empty_world)
     = Inl (Wrapped GetData (Wrapped (Fetch Day) (Raised ''InvalidURL'')))"
    by blast
  from retrieval_fails_wrapped_or_returns_pair [where e = test_env and year = 2025
      and month = 1 and day = 1 and w = empty_world
      and flt = "\<lambda>n. Some (Raised ''OperationalError'')"]
  have 2: "fst (get_calander_info failing_store_env 2025 1 1 True empty_world)
     = fst (get_calander_info test_env 2025 1 1 True empty_world)"
    by (simp add: failing_store_env_def)
  from 1 2 show ?thesis by simp
qed

end
